theory Spec2Isabelle
  imports Main "HOL-Library.Multiset"
begin

section \<open>Platform model: strings, JSON text and localStorage\<close>

text \<open>
  The program is a browser script (\<^verbatim>\<open>src/js/app.js\<close>). Three things it uses belong to the
  platform and not to the repository: JavaScript strings, the JSON codec
  (\<^verbatim>\<open>JSON.stringify\<close>, \<^verbatim>\<open>JSON.parse\<close>) and \<^verbatim>\<open>localStorage\<close>. They are modelled
  here, once, and the classes of the script are translated on top of them.

  Strings are \<^typ>\<open>string\<close>: a character stands for one code unit below 256. Code units
  above 00FF are outside the model; a \<^verbatim>\<open>\uXXXX\<close> escape read by the JSON parser is taken
  modulo 256 (\<^const>\<open>char_of\<close>).
\<close>

subsection \<open>String primitives\<close>

text \<open>\<^verbatim>\<open>String.prototype.trim\<close>: white space and line terminators, on both ends.\<close>

definition espaco_branco :: "char \<Rightarrow> bool" where
  "espaco_branco c \<longleftrightarrow> (of_char c :: nat) \<in> {9, 10, 11, 12, 13, 32, 160}"

definition trim :: "string \<Rightarrow> string" where
  "trim s = rev (dropWhile espaco_branco (rev (dropWhile espaco_branco s)))"

text \<open>\<^verbatim>\<open>String.prototype.toLowerCase\<close> on code units below 256: A-Z, and the Latin-1
  capitals C0-DE except the multiplication sign D7.\<close>

definition minuscula :: "char \<Rightarrow> char" where
  "minuscula c =
     (let n = (of_char c :: nat)
      in if (65 \<le> n \<and> n \<le> 90) \<or> (192 \<le> n \<and> n \<le> 222 \<and> n \<noteq> 215)
         then char_of (n + 32) else c)"

definition toLowerCase :: "string \<Rightarrow> string" where
  "toLowerCase s = map minuscula s"

subsection \<open>JSON values and \<^verbatim>\<open>JSON.stringify\<close>\<close>

text \<open>
  The values the script stores are plain data. A number is kept as the literal that
  denotes it (no task or project field is a number); an object is the list of its
  members in insertion order.
\<close>

datatype json =
    JNull
  | JBool bool
  | JNumber string
  | JString string
  | JArray "json list"
  | JObject "(string \<times> json) list"

definition aspas :: char where
  "aspas = CHR 0x22"

definition barra_invertida :: char where
  "barra_invertida = CHR 0x5C"

definition digito_hex :: "nat \<Rightarrow> char" where
  "digito_hex n = (if n < 10 then char_of (48 + n) else char_of (87 + n))"

text \<open>QuoteJSONString: the two-character escapes, \<^verbatim>\<open>\u00xx\<close> for the other control
  characters, every other character as it is.\<close>

definition escapar :: "char \<Rightarrow> string" where
  "escapar c =
     (if c = CHR 0x08 then [barra_invertida, CHR ''b'']
      else if c = CHR 0x09 then [barra_invertida, CHR ''t'']
      else if c = CHR 0x0A then [barra_invertida, CHR ''n'']
      else if c = CHR 0x0C then [barra_invertida, CHR ''f'']
      else if c = CHR 0x0D then [barra_invertida, CHR ''r'']
      else if c = aspas then [barra_invertida, aspas]
      else if c = barra_invertida then [barra_invertida, barra_invertida]
      else if (of_char c :: nat) < 32
        then [barra_invertida, CHR ''u'', CHR ''0'', CHR ''0'',
              digito_hex ((of_char c :: nat) div 16), digito_hex ((of_char c :: nat) mod 16)]
      else [c])"

definition citar :: "string \<Rightarrow> string" where
  "citar s = aspas # concat (map escapar s) @ [aspas]"

fun JSON_stringify :: "json \<Rightarrow> string"
  and stringify_elementos :: "json list \<Rightarrow> string"
  and stringify_membros :: "(string \<times> json) list \<Rightarrow> string"
where
  "JSON_stringify JNull = ''null''"
| "JSON_stringify (JBool b) = (if b then ''true'' else ''false'')"
| "JSON_stringify (JNumber l) = l"
| "JSON_stringify (JString s) = citar s"
| "JSON_stringify (JArray vs) = ''['' @ stringify_elementos vs @ '']''"
| "JSON_stringify (JObject ms) = ''{'' @ stringify_membros ms @ ''}''"
| "stringify_elementos [] = []"
| "stringify_elementos [v] = JSON_stringify v"
| "stringify_elementos (v # w # vs) =
     JSON_stringify v @ '','' @ stringify_elementos (w # vs)"
| "stringify_membros [] = []"
| "stringify_membros [(k, v)] = citar k @ '':'' @ JSON_stringify v"
| "stringify_membros ((k, v) # m # ms) =
     citar k @ '':'' @ JSON_stringify v @ '','' @ stringify_membros (m # ms)"

subsection \<open>\<^verbatim>\<open>JSON.parse\<close>\<close>

definition espaco_json :: "char \<Rightarrow> bool" where
  "espaco_json c \<longleftrightarrow> c = CHR 0x20 \<or> c = CHR 0x09 \<or> c = CHR 0x0A \<or> c = CHR 0x0D"

definition pular :: "string \<Rightarrow> string" where
  "pular s = dropWhile espaco_json s"

definition valor_hex :: "char \<Rightarrow> nat option" where
  "valor_hex c =
     (let n = (of_char c :: nat)
      in if 48 \<le> n \<and> n \<le> 57 then Some (n - 48)
         else if 97 \<le> n \<and> n \<le> 102 then Some (n - 87)
         else if 65 \<le> n \<and> n \<le> 70 then Some (n - 55)
         else None)"

definition desescapar :: "char \<Rightarrow> char option" where
  "desescapar e =
     (if e = aspas then Some aspas
      else if e = barra_invertida then Some barra_invertida
      else if e = CHR ''/'' then Some (CHR ''/'')
      else if e = CHR ''b'' then Some (CHR 0x08)
      else if e = CHR ''f'' then Some (CHR 0x0C)
      else if e = CHR ''n'' then Some (CHR 0x0A)
      else if e = CHR ''r'' then Some (CHR 0x0D)
      else if e = CHR ''t'' then Some (CHR 0x09)
      else None)"

definition prefixar :: "'a \<Rightarrow> ('a list \<times> 'b) option \<Rightarrow> ('a list \<times> 'b) option" where
  "prefixar x r = (case r of None \<Rightarrow> None | Some (xs, t) \<Rightarrow> Some (x # xs, t))"

text \<open>The characters of a string literal, after its opening quote, up to the closing
  quote; the result is the string and the text that follows it.\<close>

fun ler_cadeia :: "string \<Rightarrow> (string \<times> string) option" where
  "ler_cadeia [] = None"
| "ler_cadeia (c # cs) =
     (if c = aspas then Some ([], cs)
      else if c = barra_invertida then
        (case cs of
           [] \<Rightarrow> None
         | e # r \<Rightarrow>
             if e = CHR ''u'' then
               (case r of
                  h1 # h2 # h3 # h4 # r' \<Rightarrow>
                    (case (valor_hex h1, valor_hex h2, valor_hex h3, valor_hex h4) of
                       (Some a, Some b, Some c', Some d) \<Rightarrow>
                         prefixar (char_of (((a * 16 + b) * 16 + c') * 16 + d)) (ler_cadeia r')
                     | _ \<Rightarrow> None)
                | _ \<Rightarrow> None)
             else
               (case desescapar e of
                  None \<Rightarrow> None
                | Some x \<Rightarrow> prefixar x (ler_cadeia r)))
      else if (of_char c :: nat) < 32 then None
      else prefixar c (ler_cadeia cs))"

definition digito :: "char \<Rightarrow> bool" where
  "digito c \<longleftrightarrow> 48 \<le> (of_char c :: nat) \<and> (of_char c :: nat) \<le> 57"

text \<open>A number literal: optional minus, integer part without a leading zero, optional
  fraction, optional exponent. The result is the literal and the text after it.\<close>

definition ler_inteiro :: "string \<Rightarrow> (string \<times> string) option" where
  "ler_inteiro s =
     (case s of
        [] \<Rightarrow> None
      | c # r \<Rightarrow>
          if c = CHR ''0'' then Some ([c], r)
          else if digito c then Some (c # takeWhile digito r, dropWhile digito r)
          else None)"

definition ler_fracao :: "string \<Rightarrow> (string \<times> string) option" where
  "ler_fracao s =
     (case s of
        [] \<Rightarrow> Some ([], [])
      | c # r \<Rightarrow>
          if c = CHR ''.'' then
            (if takeWhile digito r = [] then None
             else Some (c # takeWhile digito r, dropWhile digito r))
          else Some ([], s))"

definition ler_expoente :: "string \<Rightarrow> (string \<times> string) option" where
  "ler_expoente s =
     (case s of
        [] \<Rightarrow> Some ([], [])
      | c # r \<Rightarrow>
          if c = CHR ''e'' \<or> c = CHR ''E'' then
            (let (sinal, r') =
                   (case r of
                      [] \<Rightarrow> ([], [])
                    | g # t \<Rightarrow> if g = CHR ''+'' \<or> g = CHR ''-'' then ([g], t) else ([], r))
             in if takeWhile digito r' = [] then None
                else Some (c # sinal @ takeWhile digito r', dropWhile digito r'))
          else Some ([], s))"

definition ler_numero :: "string \<Rightarrow> (string \<times> string) option" where
  "ler_numero s =
     (let (sinal, s1) =
            (case s of
               [] \<Rightarrow> ([], [])
             | c # r \<Rightarrow> if c = CHR ''-'' then ([c], r) else ([], s))
      in case ler_inteiro s1 of
           None \<Rightarrow> None
         | Some (i, s2) \<Rightarrow>
             (case ler_fracao s2 of
                None \<Rightarrow> None
              | Some (f, s3) \<Rightarrow>
                  (case ler_expoente s3 of
                     None \<Rightarrow> None
                   | Some (e, s4) \<Rightarrow> Some (sinal @ i @ f @ e, s4))))"

text \<open>
  The recursive-descent reader. The first argument bounds the recursion: it goes down
  by one with each opening bracket and each comma that is consumed, so the length of
  the text is always enough.
\<close>

fun ler_valor :: "nat \<Rightarrow> string \<Rightarrow> (json \<times> string) option"
  and ler_elementos :: "nat \<Rightarrow> string \<Rightarrow> (json list \<times> string) option"
  and ler_membros :: "nat \<Rightarrow> string \<Rightarrow> ((string \<times> json) list \<times> string) option"
where
  "ler_valor n [] = None"
| "ler_valor n (c # cs) =
     (if c = CHR ''['' then
        (case pular cs of
           [] \<Rightarrow> None
         | d # r \<Rightarrow>
             if d = CHR '']'' then Some (JArray [], r)
             else (case n of
                     0 \<Rightarrow> None
                   | Suc m \<Rightarrow>
                       (case ler_elementos m (d # r) of
                          None \<Rightarrow> None
                        | Some (vs, t) \<Rightarrow> Some (JArray vs, t))))
      else if c = CHR ''{'' then
        (case pular cs of
           [] \<Rightarrow> None
         | d # r \<Rightarrow>
             if d = CHR ''}'' then Some (JObject [], r)
             else (case n of
                     0 \<Rightarrow> None
                   | Suc m \<Rightarrow>
                       (case ler_membros m (d # r) of
                          None \<Rightarrow> None
                        | Some (ms, t) \<Rightarrow> Some (JObject ms, t))))
      else if c = aspas then
        (case ler_cadeia cs of
           None \<Rightarrow> None
         | Some (s, t) \<Rightarrow> Some (JString s, t))
      else if take 4 (c # cs) = ''true'' then Some (JBool True, drop 4 (c # cs))
      else if take 5 (c # cs) = ''false'' then Some (JBool False, drop 5 (c # cs))
      else if take 4 (c # cs) = ''null'' then Some (JNull, drop 4 (c # cs))
      else (case ler_numero (c # cs) of
              None \<Rightarrow> None
            | Some (l, t) \<Rightarrow> Some (JNumber l, t)))"
| "ler_elementos n s =
     (case ler_valor n s of
        None \<Rightarrow> None
      | Some (v, t) \<Rightarrow>
          (case pular t of
             [] \<Rightarrow> None
           | d # r \<Rightarrow>
               if d = CHR '']'' then Some ([v], r)
               else if d = CHR '','' then
                 (case n of
                    0 \<Rightarrow> None
                  | Suc m \<Rightarrow> prefixar v (ler_elementos m (pular r)))
               else None))"
| "ler_membros n s =
     (case s of
        [] \<Rightarrow> None
      | q # s1 \<Rightarrow>
          if q \<noteq> aspas then None
          else
            (case ler_cadeia s1 of
               None \<Rightarrow> None
             | Some (k, s2) \<Rightarrow>
                 (case pular s2 of
                    [] \<Rightarrow> None
                  | p # s3 \<Rightarrow>
                      if p \<noteq> CHR '':'' then None
                      else
                        (case ler_valor n (pular s3) of
                           None \<Rightarrow> None
                         | Some (v, t) \<Rightarrow>
                             (case pular t of
                                [] \<Rightarrow> None
                              | d # r \<Rightarrow>
                                  if d = CHR ''}'' then Some ([(k, v)], r)
                                  else if d = CHR '','' then
                                    (case n of
                                       0 \<Rightarrow> None
                                     | Suc m \<Rightarrow> prefixar (k, v) (ler_membros m (pular r)))
                                  else None)))))"

text \<open>\<^verbatim>\<open>JSON.parse\<close>: one value between optional white space; \<open>None\<close> is the
  \<^verbatim>\<open>SyntaxError\<close> it throws.\<close>

definition JSON_parse :: "string \<Rightarrow> json option" where
  "JSON_parse s =
     (case ler_valor (length s) (pular s) of
        None \<Rightarrow> None
      | Some (v, t) \<Rightarrow> if pular t = [] then Some v else None)"

subsection \<open>\<^verbatim>\<open>localStorage\<close>\<close>

text \<open>
  The store maps keys to texts. An access can throw: every access when the storage is
  not available to the page, a write when the platform refuses it for lack of space.
  Which writes are refused is the platform's business; the model bounds the length of
  the value written.
\<close>

datatype excecao = SecurityError | QuotaExceededError | SyntaxError

record local_storage =
  itens :: "string \<rightharpoonup> string"
  acessivel :: bool
  cota :: nat

definition getItem :: "local_storage \<Rightarrow> string \<Rightarrow> excecao + string option" where
  "getItem ls chave = (if acessivel ls then Inr (itens ls chave) else Inl SecurityError)"

definition setItem :: "local_storage \<Rightarrow> string \<Rightarrow> string \<Rightarrow> excecao + local_storage" where
  "setItem ls chave texto =
     (if \<not> acessivel ls then Inl SecurityError
      else if cota ls < length texto then Inl QuotaExceededError
      else Inr (ls\<lparr>itens := (itens ls)(chave \<mapsto> texto)\<rparr>))"

definition removeItem :: "local_storage \<Rightarrow> string \<Rightarrow> excecao + local_storage" where
  "removeItem ls chave =
     (if acessivel ls then Inr (ls\<lparr>itens := (itens ls)(chave := None)\<rparr>)
      else Inl SecurityError)"

section \<open>Data model\<close>

text \<open>
  A task and a project, with the properties in the order the script creates them.
  \<^verbatim>\<open>projetoId\<close> is a string or \<^verbatim>\<open>null\<close>.
\<close>

record tarefa =
  id_tarefa :: string
  titulo :: string
  descricao :: string
  dataVencimento :: string
  prioridade :: string
  projetoId :: "string option"
  concluida :: bool
  dataCriacao_tarefa :: string

record projeto =
  id_projeto :: string
  nome :: string
  dataCriacao_projeto :: string

definition tarefa_json :: "tarefa \<Rightarrow> json" where
  "tarefa_json t =
     JObject
       [(''id'', JString (id_tarefa t)),
        (''titulo'', JString (titulo t)),
        (''descricao'', JString (descricao t)),
        (''dataVencimento'', JString (dataVencimento t)),
        (''prioridade'', JString (prioridade t)),
        (''projetoId'', (case projetoId t of None \<Rightarrow> JNull | Some p \<Rightarrow> JString p)),
        (''concluida'', JBool (concluida t)),
        (''dataCriacao'', JString (dataCriacao_tarefa t))]"

definition tarefas_json :: "tarefa list \<Rightarrow> json" where
  "tarefas_json ts = JArray (map tarefa_json ts)"

definition projeto_json :: "projeto \<Rightarrow> json" where
  "projeto_json p =
     JObject
       [(''id'', JString (id_projeto p)),
        (''nome'', JString (nome p)),
        (''dataCriacao'', JString (dataCriacao_projeto p))]"

definition projetos_json :: "projeto list \<Rightarrow> json" where
  "projetos_json ps = JArray (map projeto_json ps)"

section \<open>What the user sees: alerts, confirmations, the console\<close>

datatype alerta = TituloObrigatorio | NomeObrigatorio | NomeDuplicado

datatype pergunta = ExcluirTarefa | ExcluirProjeto nat

datatype registro =
    DadosSalvos string
  | ErroAoSalvar string excecao
  | DadosCarregados string
  | ErroAoCarregar string excecao
  | DadosRemovidos string
  | ErroAoRemover string excecao
  | EditandoTarefa tarefa
  | CriandoNovaTarefa
  | TarefaAtualizada tarefa
  | NovaTarefaCriada tarefa
  | EdicaoCancelada
  | TarefaAlternada tarefa
  | TarefaRemovida tarefa
  | FiltroAplicado string
  | ProjetoAtivoDefinido string
  | EditandoProjeto projeto
  | CriandoNovoProjeto
  | ProjetoAtualizado projeto
  | NovoProjetoCriado projeto
  | EdicaoProjetoCancelada
  | ProjetoRemovido projeto
  | ProjetoSelecionado string

text \<open>One event per call of \<^verbatim>\<open>alert\<close>, \<^verbatim>\<open>confirm\<close>, \<^verbatim>\<open>Logger.info\<close> and
  \<^verbatim>\<open>Logger.error\<close>, in the order of the calls.\<close>

datatype evento =
    Alerta alerta
  | Confirmar pergunta
  | Info registro
  | Erro registro

section \<open>GerenciadorArmazenamento\<close>

definition salvar :: "string \<Rightarrow> json \<Rightarrow> local_storage \<Rightarrow> local_storage \<times> evento list" where
  "salvar chave dados ls =
     (case setItem ls chave (JSON_stringify dados) of
        Inl erro \<Rightarrow> (ls, [Erro (ErroAoSalvar chave erro)])
      | Inr ls' \<Rightarrow> (ls', [Info (DadosSalvos chave)]))"

definition carregar :: "string \<Rightarrow> json \<Rightarrow> local_storage \<Rightarrow> json \<times> evento list" where
  "carregar chave valorPadrao ls =
     (case getItem ls chave of
        Inl erro \<Rightarrow> (valorPadrao, [Erro (ErroAoCarregar chave erro)])
      | Inr None \<Rightarrow> (valorPadrao, [])
      | Inr (Some dadosSerializados) \<Rightarrow>
          (case JSON_parse dadosSerializados of
             None \<Rightarrow> (valorPadrao, [Erro (ErroAoCarregar chave SyntaxError)])
           | Some dados \<Rightarrow> (dados, [Info (DadosCarregados chave)])))"

definition remover :: "string \<Rightarrow> local_storage \<Rightarrow> local_storage \<times> evento list" where
  "remover chave ls =
     (case removeItem ls chave of
        Inl erro \<Rightarrow> (ls, [Erro (ErroAoRemover chave erro)])
      | Inr ls' \<Rightarrow> (ls', [Info (DadosRemovidos chave)]))"

section \<open>Application state\<close>

text \<open>
  The two manager objects are globals of the page and call each other; their fields
  and the storage are one state here. \<^verbatim>\<open>tarefaEditando\<close> and \<^verbatim>\<open>projetoEditando\<close> hold
  the object the edit button passed to \<^verbatim>\<open>mostrarFormulario\<close>: a copy written into the
  page, not an element of the list.

  The page itself (the elements the script looks up, the HTML it writes) is not part
  of the state: every element the script looks up is taken to exist, and rendering is
  the function from a state to what is shown.
\<close>

record sistema =
  tarefas :: "tarefa list"
  tarefaEditando :: "tarefa option"
  projetoAtivo :: string
  filtroAtivo :: string
  projetos :: "projeto list"
  projetoEditando :: "projeto option"
  localStorage :: local_storage

text \<open>What the script reads from the clock and the random generator during one call:
  the digits of \<^verbatim>\<open>Date.now()\<close>, the nine characters cut from
  \<^verbatim>\<open>Math.random().toString(36)\<close>, and \<^verbatim>\<open>new Date().toISOString()\<close>.\<close>

record ambiente =
  date_now :: string
  aleatorio :: string
  toISOString :: string

text \<open>The values of the fields of the task form when it is submitted.\<close>

record formulario_tarefa =
  campo_titulo :: string
  campo_descricao :: string
  campo_dataVencimento :: string
  campo_prioridade :: string
  campo_projeto :: string

subsection \<open>Array primitives\<close>

text \<open>\<^verbatim>\<open>findIndex\<close>, with \<open>None\<close> for -1.\<close>

fun findIndex :: "('a \<Rightarrow> bool) \<Rightarrow> 'a list \<Rightarrow> nat option" where
  "findIndex P [] = None"
| "findIndex P (x # xs) = (if P x then Some 0 else map_option Suc (findIndex P xs))"

text \<open>\<^verbatim>\<open>splice(indice, 1)\<close>.\<close>

definition splice1 :: "nat \<Rightarrow> 'a list \<Rightarrow> 'a list" where
  "splice1 i xs = take i xs @ drop (Suc i) xs"

text \<open>
  \<^verbatim>\<open>Array.prototype.sort\<close> with a comparator. The sort is stable, and a comparator
  result that is \<^verbatim>\<open>NaN\<close> (here \<open>None\<close>) counts as zero. For a consistent comparator the
  result is determined by these two facts; it is computed here by insertion from the
  right, an element going before the first one it does not exceed.
\<close>

definition ordem :: "('a \<Rightarrow> 'a \<Rightarrow> int option) \<Rightarrow> 'a \<Rightarrow> 'a \<Rightarrow> int" where
  "ordem cmp x y = (case cmp x y of None \<Rightarrow> 0 | Some v \<Rightarrow> v)"

fun inserir :: "('a \<Rightarrow> 'a \<Rightarrow> int option) \<Rightarrow> 'a \<Rightarrow> 'a list \<Rightarrow> 'a list" where
  "inserir cmp x [] = [x]"
| "inserir cmp x (y # ys) =
     (if ordem cmp x y \<le> 0 then x # y # ys else y # inserir cmp x ys)"

definition array_sort :: "('a \<Rightarrow> 'a \<Rightarrow> int option) \<Rightarrow> 'a list \<Rightarrow> 'a list" where
  "array_sort cmp xs = foldr (inserir cmp) xs []"

section \<open>GerenciadorTarefas\<close>

definition salvarTarefas :: "sistema \<Rightarrow> sistema \<times> evento list" where
  "salvarTarefas s =
     (let (ls, evs) = salvar ''tarefas'' (tarefas_json (tarefas s)) (localStorage s)
      in (s\<lparr>localStorage := ls\<rparr>, evs))"

definition gerarId_tarefa :: "ambiente \<Rightarrow> string" where
  "gerarId_tarefa amb = ''tarefa_'' @ date_now amb @ ''_'' @ aleatorio amb"

definition mostrarFormulario_tarefa ::
  "tarefa option \<Rightarrow> sistema \<Rightarrow> sistema \<times> formulario_tarefa \<times> evento list"
where
  "mostrarFormulario_tarefa arg s =
     (case arg of
        Some t \<Rightarrow>
          (s\<lparr>tarefaEditando := Some t\<rparr>,
           \<lparr>campo_titulo = titulo t, campo_descricao = descricao t,
            campo_dataVencimento = dataVencimento t, campo_prioridade = prioridade t,
            campo_projeto = (case projetoId t of None \<Rightarrow> [] | Some p \<Rightarrow> p)\<rparr>,
           [Info (EditandoTarefa t)])
      | None \<Rightarrow>
          (s\<lparr>tarefaEditando := None\<rparr>,
           \<lparr>campo_titulo = [], campo_descricao = [],
            campo_dataVencimento = [], campo_prioridade = ''media'',
            campo_projeto = (if projetoAtivo s \<noteq> ''todos'' then projetoAtivo s else [])\<rparr>,
           [Info CriandoNovaTarefa]))"

definition cancelarEdicao_tarefa :: "sistema \<Rightarrow> sistema \<times> evento list" where
  "cancelarEdicao_tarefa s = (s\<lparr>tarefaEditando := None\<rparr>, [Info EdicaoCancelada])"

text \<open>
  The object \<^verbatim>\<open>dadosTarefa\<close> of \<^verbatim>\<open>salvarTarefa\<close>, as the spread that both branches
  apply to it: \<^verbatim>\<open>{...base, ...dadosTarefa}\<close> gives \<open>base\<close> every property of
  \<^verbatim>\<open>dadosTarefa\<close>. An empty choice of project becomes \<^verbatim>\<open>null\<close>.
\<close>

definition dadosTarefa :: "ambiente \<Rightarrow> formulario_tarefa \<Rightarrow> tarefa \<Rightarrow> tarefa" where
  "dadosTarefa amb f base =
     base\<lparr>titulo := trim (campo_titulo f),
          descricao := trim (campo_descricao f),
          dataVencimento := campo_dataVencimento f,
          prioridade := campo_prioridade f,
          projetoId := (if campo_projeto f = [] then None else Some (campo_projeto f)),
          concluida := False,
          dataCriacao_tarefa := toISOString amb\<rparr>"

text \<open>\<^verbatim>\<open>{ id: this.gerarId(), ...dadosTarefa }\<close>: every property but the id comes from
  \<^verbatim>\<open>dadosTarefa\<close>.\<close>

definition novaTarefa :: "ambiente \<Rightarrow> formulario_tarefa \<Rightarrow> tarefa" where
  "novaTarefa amb f =
     dadosTarefa amb f
       \<lparr>id_tarefa = gerarId_tarefa amb, titulo = [], descricao = [], dataVencimento = [],
        prioridade = [], projetoId = None, concluida = False, dataCriacao_tarefa = []\<rparr>"

definition salvarTarefa ::
  "ambiente \<Rightarrow> formulario_tarefa \<Rightarrow> sistema \<Rightarrow> sistema \<times> evento list"
where
  "salvarTarefa amb f s =
     (if trim (campo_titulo f) = [] then (s, [Alerta TituloObrigatorio])
      else
        let (s1, ev1) =
              (case tarefaEditando s of
                 Some editando \<Rightarrow>
                   (case findIndex (\<lambda>t. id_tarefa t = id_tarefa editando) (tarefas s) of
                      Some indice \<Rightarrow>
                        (let atualizada = dadosTarefa amb f (tarefas s ! indice)
                         in (s\<lparr>tarefas := (tarefas s)[indice := atualizada]\<rparr>,
                             [Info (TarefaAtualizada atualizada)]))
                    | None \<Rightarrow> (s, []))
               | None \<Rightarrow>
                   (s\<lparr>tarefas := tarefas s @ [novaTarefa amb f]\<rparr>,
                    [Info (NovaTarefaCriada (novaTarefa amb f))]));
            (s2, ev2) = salvarTarefas s1;
            (s3, ev3) = cancelarEdicao_tarefa s2
        in (s3, ev1 @ ev2 @ ev3))"

text \<open>\<^verbatim>\<open>find\<close> returns the first task with the id, and the assignment changes that
  object where it is in the list.\<close>

definition alternarConclusao :: "string \<Rightarrow> sistema \<Rightarrow> sistema \<times> evento list" where
  "alternarConclusao ident s =
     (case findIndex (\<lambda>t. id_tarefa t = ident) (tarefas s) of
        None \<Rightarrow> (s, [])
      | Some i \<Rightarrow>
          (let alternada = (tarefas s ! i)\<lparr>concluida := \<not> concluida (tarefas s ! i)\<rparr>;
               (s1, ev1) = salvarTarefas (s\<lparr>tarefas := (tarefas s)[i := alternada]\<rparr>)
           in (s1, ev1 @ [Info (TarefaAlternada alternada)])))"

text \<open>The second argument is the answer of the user to the confirmation.\<close>

definition removerTarefa :: "string \<Rightarrow> bool \<Rightarrow> sistema \<Rightarrow> sistema \<times> evento list" where
  "removerTarefa ident resposta s =
     (if resposta then
        (case findIndex (\<lambda>t. id_tarefa t = ident) (tarefas s) of
           Some indice \<Rightarrow>
             (let (s1, ev1) = salvarTarefas (s\<lparr>tarefas := splice1 indice (tarefas s)\<rparr>)
              in (s1, Confirmar ExcluirTarefa # ev1 @ [Info (TarefaRemovida (tarefas s ! indice))]))
         | None \<Rightarrow> (s, [Confirmar ExcluirTarefa]))
      else (s, [Confirmar ExcluirTarefa]))"

definition aplicarFiltro :: "string \<Rightarrow> sistema \<Rightarrow> sistema \<times> evento list" where
  "aplicarFiltro filtro s = (s\<lparr>filtroAtivo := filtro\<rparr>, [Info (FiltroAplicado filtro)])"

definition definirProjetoAtivo :: "string \<Rightarrow> sistema \<Rightarrow> sistema \<times> evento list" where
  "definirProjetoAtivo pid s = (s\<lparr>projetoAtivo := pid\<rparr>, [Info (ProjetoAtivoDefinido pid)])"

definition obterTarefasFiltradas :: "sistema \<Rightarrow> tarefa list" where
  "obterTarefasFiltradas s =
     (let tarefasFiltradas =
            (if projetoAtivo s \<noteq> ''todos''
             then filter (\<lambda>t. projetoId t = Some (projetoAtivo s)) (tarefas s)
             else tarefas s)
      in if filtroAtivo s = ''pendentes'' then filter (\<lambda>t. \<not> concluida t) tarefasFiltradas
         else if filtroAtivo s = ''concluidas'' then filter (\<lambda>t. concluida t) tarefasFiltradas
         else if filtroAtivo s = ''alta''
           then filter (\<lambda>t. prioridade t = ''alta'') tarefasFiltradas
         else if filtroAtivo s = ''media''
           then filter (\<lambda>t. prioridade t = ''media'') tarefasFiltradas
         else if filtroAtivo s = ''baixa''
           then filter (\<lambda>t. prioridade t = ''baixa'') tarefasFiltradas
         else tarefasFiltradas)"

text \<open>The table \<^verbatim>\<open>prioridades\<close> of the comparator; a key it does not have gives
  \<^verbatim>\<open>undefined\<close>, and the subtraction then \<^verbatim>\<open>NaN\<close>.\<close>

definition prioridades :: "string \<Rightarrow> int option" where
  "prioridades p =
     (if p = ''alta'' then Some 3
      else if p = ''media'' then Some 2
      else if p = ''baixa'' then Some 1
      else None)"

definition comparar :: "tarefa \<Rightarrow> tarefa \<Rightarrow> int option" where
  "comparar a b =
     (if concluida a \<noteq> concluida b then Some (if concluida a then 1 else - 1)
      else (case (prioridades (prioridade b), prioridades (prioridade a)) of
              (Some pb, Some pa) \<Rightarrow> Some (pb - pa)
            | _ \<Rightarrow> None))"

text \<open>The tasks in the order \<^verbatim>\<open>renderizarTarefas\<close> writes them to the page (none when
  the filtered list is empty).\<close>

definition renderizarTarefas :: "sistema \<Rightarrow> tarefa list" where
  "renderizarTarefas s =
     (if obterTarefasFiltradas s = [] then []
      else array_sort comparar (obterTarefasFiltradas s))"

section \<open>GerenciadorProjetos\<close>

definition salvarProjetos :: "sistema \<Rightarrow> sistema \<times> evento list" where
  "salvarProjetos s =
     (let (ls, evs) = salvar ''projetos'' (projetos_json (projetos s)) (localStorage s)
      in (s\<lparr>localStorage := ls\<rparr>, evs))"

definition gerarId_projeto :: "ambiente \<Rightarrow> string" where
  "gerarId_projeto amb = ''projeto_'' @ date_now amb @ ''_'' @ aleatorio amb"

definition mostrarFormulario_projeto ::
  "projeto option \<Rightarrow> sistema \<Rightarrow> sistema \<times> string \<times> evento list"
where
  "mostrarFormulario_projeto arg s =
     (case arg of
        Some p \<Rightarrow> (s\<lparr>projetoEditando := Some p\<rparr>, nome p, [Info (EditandoProjeto p)])
      | None \<Rightarrow> (s\<lparr>projetoEditando := None\<rparr>, [], [Info CriandoNovoProjeto]))"

definition cancelarEdicao_projeto :: "sistema \<Rightarrow> sistema \<times> evento list" where
  "cancelarEdicao_projeto s = (s\<lparr>projetoEditando := None\<rparr>, [Info EdicaoProjetoCancelada])"

text \<open>The predicate of the search for a project that already has the name.\<close>

definition mesmo_nome :: "string \<Rightarrow> projeto option \<Rightarrow> projeto \<Rightarrow> bool" where
  "mesmo_nome nm editando p \<longleftrightarrow>
     toLowerCase (nome p) = toLowerCase nm \<and>
     (case editando of None \<Rightarrow> True | Some e \<Rightarrow> id_projeto p \<noteq> id_projeto e)"

text \<open>The first argument after the environment is the value of the name field.\<close>

definition adicionarProjeto :: "ambiente \<Rightarrow> string \<Rightarrow> sistema \<Rightarrow> sistema \<times> evento list" where
  "adicionarProjeto amb campo_nome s =
     (let nm = trim campo_nome
      in if nm = [] then (s, [Alerta NomeObrigatorio])
         else if List.find (mesmo_nome nm (projetoEditando s)) (projetos s) \<noteq> None
           then (s, [Alerta NomeDuplicado])
         else
           let (s1, ev1) =
                 (case projetoEditando s of
                    Some editando \<Rightarrow>
                      (case findIndex (\<lambda>p. id_projeto p = id_projeto editando) (projetos s) of
                         Some indice \<Rightarrow>
                           (let atualizado = (projetos s ! indice)\<lparr>nome := nm\<rparr>
                            in (s\<lparr>projetos := (projetos s)[indice := atualizado]\<rparr>,
                                [Info (ProjetoAtualizado atualizado)]))
                       | None \<Rightarrow> (s, []))
                  | None \<Rightarrow>
                      (let novoProjeto =
                             \<lparr>id_projeto = gerarId_projeto amb, nome = nm,
                              dataCriacao_projeto = toISOString amb\<rparr>
                       in (s\<lparr>projetos := projetos s @ [novoProjeto]\<rparr>,
                           [Info (NovoProjetoCriado novoProjeto)])));
               (s2, ev2) = salvarProjetos s1;
               (s3, ev3) = cancelarEdicao_projeto s2
           in (s3, ev1 @ ev2 @ ev3))"

definition selecionarProjeto :: "string \<Rightarrow> sistema \<Rightarrow> sistema \<times> evento list" where
  "selecionarProjeto pid s =
     (let (s1, ev1) = definirProjetoAtivo pid s
      in (s1, ev1 @ [Info (ProjetoSelecionado pid)]))"

text \<open>
  \<^verbatim>\<open>tarefasAssociadas\<close> holds the task objects of the list themselves, so setting
  \<^verbatim>\<open>projetoId\<close> on them changes the list. The confirmation is asked only when there are
  such tasks; the second argument is the answer the user gives if asked.
\<close>

definition removerProjeto :: "string \<Rightarrow> bool \<Rightarrow> sistema \<Rightarrow> sistema \<times> evento list" where
  "removerProjeto ident resposta s =
     (case List.find (\<lambda>p. id_projeto p = ident) (projetos s) of
        None \<Rightarrow> (s, [])
      | Some projeto \<Rightarrow>
          (let n = length (filter (\<lambda>t. projetoId t = Some ident) (tarefas s));
               ev0 = (if 0 < n then [Confirmar (ExcluirProjeto n)] else []);
               confirmar = (if 0 < n then resposta else True)
           in if confirmar then
                (let (s1, ev1) =
                       salvarTarefas
                         (s\<lparr>tarefas :=
                              map (\<lambda>t. if projetoId t = Some ident then t\<lparr>projetoId := None\<rparr> else t)
                                (tarefas s)\<rparr>)
                 in case findIndex (\<lambda>p. id_projeto p = ident) (projetos s1) of
                      None \<Rightarrow> (s1, ev0 @ ev1)
                    | Some indice \<Rightarrow>
                        (let (s2, ev2) =
                               salvarProjetos (s1\<lparr>projetos := splice1 indice (projetos s1)\<rparr>);
                             (s3, ev3) =
                               (if projetoAtivo s2 = ident then selecionarProjeto ''todos'' s2
                                else (s2, []))
                         in (s3, ev0 @ ev1 @ ev2 @ ev3
                                   @ [Info (ProjetoRemovido (projetos s1 ! indice))])))
              else (s, ev0)))"

text \<open>
  The state the two constructors leave when the storage holds neither list: each
  \<^verbatim>\<open>carregar\<close> then returns its default, the empty list, whether the storage can be
  read or not.
\<close>

definition sistema_inicial :: "local_storage \<Rightarrow> sistema" where
  "sistema_inicial ls =
     \<lparr>tarefas = [], tarefaEditando = None, projetoAtivo = ''todos'', filtroAtivo = ''todas'',
      projetos = [], projetoEditando = None, localStorage = ls\<rparr>"

section \<open>Values without numbers\<close>

text \<open>
  Not part of the script: the values in which no number occurs. The task list and the
  project list are such values, and for them reading back what \<^const>\<open>JSON_stringify\<close>
  wrote is proved below.
\<close>

fun sem_numeros :: "json \<Rightarrow> bool"
  and sem_numeros_elementos :: "json list \<Rightarrow> bool"
  and sem_numeros_membros :: "(string \<times> json) list \<Rightarrow> bool"
where
  "sem_numeros JNull = True"
| "sem_numeros (JBool b) = True"
| "sem_numeros (JNumber l) = False"
| "sem_numeros (JString s) = True"
| "sem_numeros (JArray vs) = sem_numeros_elementos vs"
| "sem_numeros (JObject ms) = sem_numeros_membros ms"
| "sem_numeros_elementos [] = True"
| "sem_numeros_elementos (v # vs) = (sem_numeros v \<and> sem_numeros_elementos vs)"
| "sem_numeros_membros [] = True"
| "sem_numeros_membros ((k, v) # ms) = (sem_numeros v \<and> sem_numeros_membros ms)"

section \<open>A sort key for the comparator\<close>

text \<open>
  Not part of the script: on tasks whose priority is in the table, the comparator of
  \<^verbatim>\<open>renderizarTarefas\<close> orders two tasks as this number orders them. The proofs about
  the rendering order go through it.
\<close>

definition chave_ordenacao :: "tarefa \<Rightarrow> int" where
  "chave_ordenacao t =
     (if concluida t then 4 else 0)
       - (case prioridades (prioridade t) of None \<Rightarrow> 0 | Some v \<Rightarrow> v)"

section \<open>The ranks of the specification\<close>

text \<open>
  Not part of the script: the rank the specification gives each priority, high
  (\<^verbatim>\<open>alta\<close>) 3, medium (\<^verbatim>\<open>media\<close>) 2, low (\<^verbatim>\<open>baixa\<close>) 1. The order of the rendered
  tasks is stated with it, and compared with the table of the comparator.
\<close>

definition posto_especificado :: "string \<Rightarrow> int" where
  "posto_especificado p =
     (if p = ''alta'' then 3 else if p = ''media'' then 2 else if p = ''baixa'' then 1 else 0)"

section \<open>Example states\<close>

definition armazenamento_exemplo :: local_storage where
  "armazenamento_exemplo = \<lparr>itens = Map.empty, acessivel = True, cota = 5000000\<rparr>"

definition tarefa_relatorio :: tarefa where
  "tarefa_relatorio =
     \<lparr>id_tarefa = ''tarefa_1_aaa'', titulo = ''Relatorio'', descricao = ''mensal'',
      dataVencimento = ''2024-05-01'', prioridade = ''alta'',
      projetoId = Some ''projeto_1_ppp'', concluida = True,
      dataCriacao_tarefa = ''2024-01-01T00:00:00.000Z''\<rparr>"

definition tarefa_compras :: tarefa where
  "tarefa_compras =
     \<lparr>id_tarefa = ''tarefa_2_bbb'', titulo = ''Compras'', descricao = [],
      dataVencimento = [], prioridade = ''baixa'',
      projetoId = None, concluida = False,
      dataCriacao_tarefa = ''2024-01-02T00:00:00.000Z''\<rparr>"

definition tarefa_revisao :: tarefa where
  "tarefa_revisao =
     \<lparr>id_tarefa = ''tarefa_3_ccc'', titulo = ''Revisao'', descricao = [],
      dataVencimento = [], prioridade = ''media'',
      projetoId = Some ''projeto_1_ppp'', concluida = False,
      dataCriacao_tarefa = ''2024-01-03T00:00:00.000Z''\<rparr>"

definition projeto_trabalho :: projeto where
  "projeto_trabalho =
     \<lparr>id_projeto = ''projeto_1_ppp'', nome = ''Work'',
      dataCriacao_projeto = ''2023-12-31T00:00:00.000Z''\<rparr>"

definition projeto_casa :: projeto where
  "projeto_casa =
     \<lparr>id_projeto = ''projeto_2_qqq'', nome = ''Casa'',
      dataCriacao_projeto = ''2023-12-30T00:00:00.000Z''\<rparr>"

definition sistema_exemplo :: sistema where
  "sistema_exemplo =
     \<lparr>tarefas = [tarefa_relatorio, tarefa_compras, tarefa_revisao], tarefaEditando = None,
      projetoAtivo = ''todos'', filtroAtivo = ''todas'',
      projetos = [projeto_trabalho, projeto_casa], projetoEditando = None,
      localStorage = armazenamento_exemplo\<rparr>"

text \<open>A store in which two projects have the same id.\<close>

definition projeto_gemeo :: projeto where
  "projeto_gemeo =
     \<lparr>id_projeto = ''projeto_1_ppp'', nome = ''Outro'',
      dataCriacao_projeto = ''2023-12-29T00:00:00.000Z''\<rparr>"

definition sistema_ids_repetidos :: sistema where
  "sistema_ids_repetidos =
     \<lparr>tarefas = [tarefa_relatorio, tarefa_compras, tarefa_revisao], tarefaEditando = None,
      projetoAtivo = ''todos'', filtroAtivo = ''todas'',
      projetos = [projeto_trabalho, projeto_gemeo], projetoEditando = None,
      localStorage = armazenamento_exemplo\<rparr>"

text \<open>The tasks of the example, all three pending, the low priority first.\<close>

definition sistema_pendentes :: sistema where
  "sistema_pendentes =
     \<lparr>tarefas = [tarefa_compras, tarefa_revisao, tarefa_relatorio\<lparr>concluida := False\<rparr>],
      tarefaEditando = None, projetoAtivo = ''todos'', filtroAtivo = ''todas'',
      projetos = [projeto_trabalho, projeto_casa], projetoEditando = None,
      localStorage = armazenamento_exemplo\<rparr>"

definition ambiente_exemplo :: ambiente where
  "ambiente_exemplo =
     \<lparr>date_now = ''1748779200000'', aleatorio = ''k3j9x0q1z'',
      toISOString = ''2025-06-01T12:00:00.000Z''\<rparr>"

definition formulario_exemplo :: formulario_tarefa where
  "formulario_exemplo =
     \<lparr>campo_titulo = ''Relatorio final'', campo_descricao = ''mensal'',
      campo_dataVencimento = ''2024-05-01'', campo_prioridade = ''alta'',
      campo_projeto = ''projeto_1_ppp''\<rparr>"

section \<open>Auxiliary facts\<close>

lemma findIndex_Some:
  "findIndex P xs = Some i \<Longrightarrow> i < length xs \<and> P (xs ! i) \<and> (\<forall>j<i. \<not> P (xs ! j))"
proof (induction xs arbitrary: i)
  case Nil
  then show ?case by simp
next
  case (Cons x xs)
  show ?case
  proof (cases "P x")
    case True
    with Cons.prems show ?thesis by simp
  next
    case False
    with Cons.prems obtain k where k: "findIndex P xs = Some k" "i = Suc k"
      by auto
    from Cons.IH [OF k(1)] False k(2) show ?thesis
      by (auto simp: nth_Cons split: nat.splits)
  qed
qed

lemma findIndex_None: "findIndex P xs = None \<longleftrightarrow> (\<forall>x\<in>set xs. \<not> P x)"
  by (induction xs) auto

lemma findIndex_update:
  "findIndex P xs = Some i \<Longrightarrow> P y \<Longrightarrow> findIndex P (xs[i := y]) = Some i"
proof (induction xs arbitrary: i)
  case Nil
  then show ?case by simp
next
  case (Cons x xs)
  then show ?case
    by (cases "P x") (auto split: nat.splits)
qed

lemma dropWhile_todos: "(\<forall>x\<in>set (dropWhile P s). P x) \<longleftrightarrow> (\<forall>c\<in>set s. P c)"
  by (induction s) auto

lemma trim_vazio: "trim s = [] \<longleftrightarrow> (\<forall>c\<in>set s. espaco_branco c)"
  by (simp add: trim_def dropWhile_eq_Nil_conv dropWhile_todos)

lemma salvar_sem_alerta: "Alerta a \<notin> set (snd (salvar chave dados ls))"
  by (simp add: salvar_def split: sum.splits)

lemma salvarTarefas_fst:
  "fst (salvarTarefas s) =
     s\<lparr>localStorage := fst (salvar ''tarefas'' (tarefas_json (tarefas s)) (localStorage s))\<rparr>"
  by (simp add: salvarTarefas_def split: prod.splits)

lemma salvarTarefas_snd:
  "snd (salvarTarefas s) = snd (salvar ''tarefas'' (tarefas_json (tarefas s)) (localStorage s))"
  by (simp add: salvarTarefas_def split: prod.splits)

lemma salvarProjetos_fst:
  "fst (salvarProjetos s) =
     s\<lparr>localStorage := fst (salvar ''projetos'' (projetos_json (projetos s)) (localStorage s))\<rparr>"
  by (simp add: salvarProjetos_def split: prod.splits)

lemma salvarProjetos_snd:
  "snd (salvarProjetos s) = snd (salvar ''projetos'' (projetos_json (projetos s)) (localStorage s))"
  by (simp add: salvarProjetos_def split: prod.splits)

lemma list_update_map:
  "distinct xs \<Longrightarrow> i < length xs \<Longrightarrow>
   xs[i := y] = map (\<lambda>q. if q = xs ! i then y else q) xs"
proof (induction xs arbitrary: i)
  case Nil
  then show ?case by simp
next
  case (Cons x xs)
  show ?case
  proof (cases i)
    case 0
    have "map (\<lambda>q. if q = x then y else q) xs = xs"
      using Cons.prems(1) by (intro map_idI) auto
    with 0 show ?thesis by simp
  next
    case (Suc k)
    with Cons.prems have k: "k < length xs" "distinct xs" "x \<noteq> xs ! k"
      by auto
    from Cons.IH [OF k(2) k(1)] k(3) Suc show ?thesis by simp
  qed
qed

lemma findIndex_distinct:
  assumes "distinct (map f xs)" "p \<in> set xs"
  shows "\<exists>i. findIndex (\<lambda>q. f q = f p) xs = Some i \<and> i < length xs \<and> xs ! i = p"
proof -
  from assms(2) have "findIndex (\<lambda>q. f q = f p) xs \<noteq> None"
    by (auto simp: findIndex_None)
  then obtain i where i: "findIndex (\<lambda>q. f q = f p) xs = Some i"
    by auto
  from findIndex_Some [OF i] have l: "i < length xs" and e: "f (xs ! i) = f p"
    by auto
  from assms(2) obtain j where j: "j < length xs" "xs ! j = p"
    by (auto simp: in_set_conv_nth)
  from assms(1) l j e have "i = j"
    by (auto simp: distinct_conv_nth)
  with i l j show ?thesis by auto
qed

lemma distinct_list_update_novo:
  assumes "distinct ys" "i < length ys" "\<forall>j<length ys. j \<noteq> i \<longrightarrow> ys ! j \<noteq> v"
  shows "distinct (ys[i := v])"
  using assms by (auto simp: distinct_conv_nth nth_list_update)

section \<open>Creating a task without a title\<close>

text \<open>
  C6. A task form whose title is empty or consists of white space only is refused:
  \<^verbatim>\<open>salvarTarefa\<close> shows the alert that the title is required and returns at once. The
  state it leaves is the state it found (the task list, the storage and the open
  form), and the alert is the only event: nothing is saved.
\<close>

theorem salvarTarefa_titulo_vazio:
  "\<forall>c\<in>set (campo_titulo f). espaco_branco c \<Longrightarrow>
   salvarTarefa amb f s = (s, [Alerta TituloObrigatorio])"
  by (simp add: salvarTarefa_def trim_vazio)

theorem salvarTarefa_titulo_vazio_witness:
  "list_all espaco_branco (campo_titulo (formulario_exemplo\<lparr>campo_titulo := ''   ''\<rparr>))
   \<and> salvarTarefa ambiente_exemplo (formulario_exemplo\<lparr>campo_titulo := ''   ''\<rparr>) sistema_exemplo
       = (sistema_exemplo, [Alerta TituloObrigatorio])"
proof -
  have h: "\<forall>c\<in>set (campo_titulo (formulario_exemplo\<lparr>campo_titulo := ''   ''\<rparr>)). espaco_branco c"
    by (simp add: espaco_branco_def)
  from salvarTarefa_titulo_vazio [OF h] h show ?thesis
    by (simp add: list_all_iff)
qed

section \<open>Toggling completion\<close>

lemma alternar_achado:
  assumes "findIndex (\<lambda>t. id_tarefa t = ident) (tarefas s) = Some i"
  shows "tarefas (fst (alternarConclusao ident s)) =
           (tarefas s)[i := (tarefas s ! i)\<lparr>concluida := \<not> concluida (tarefas s ! i)\<rparr>]"
  using assms
  by (simp add: alternarConclusao_def salvarTarefas_def Let_def split: prod.splits)

lemma alternar_ausente:
  "findIndex (\<lambda>t. id_tarefa t = ident) (tarefas s) = None \<Longrightarrow>
   alternarConclusao ident s = (s, [])"
  by (simp add: alternarConclusao_def)

lemma alternar_resto:
  "(fst (alternarConclusao ident s))\<lparr>tarefas := tarefas s, localStorage := localStorage s\<rparr> = s"
  by (simp add: alternarConclusao_def salvarTarefas_def Let_def
      split: option.splits prod.splits)

lemma alternar_duas_tarefas:
  "tarefas (fst (alternarConclusao ident (fst (alternarConclusao ident s)))) = tarefas s"
proof (cases "findIndex (\<lambda>t. id_tarefa t = ident) (tarefas s)")
  case None
  then show ?thesis by (simp add: alternar_ausente)
next
  case (Some i)
  let ?s1 = "fst (alternarConclusao ident s)"
  let ?t = "tarefas s ! i"
  from findIndex_Some [OF Some] have i: "i < length (tarefas s)" "id_tarefa ?t = ident"
    by auto
  have t1: "tarefas ?s1 = (tarefas s)[i := ?t\<lparr>concluida := \<not> concluida ?t\<rparr>]"
    by (rule alternar_achado [OF Some])
  have "findIndex (\<lambda>t. id_tarefa t = ident) (tarefas ?s1) = Some i"
    unfolding t1 using Some i(2) by (intro findIndex_update) simp_all
  from alternar_achado [OF this] show ?thesis
    using i(1) by (simp add: t1)
qed

text \<open>
  C7. \<^verbatim>\<open>alternarConclusao\<close> with an id that no task has does nothing at all. With an
  id that is found it changes the first task with that id, in its place, and only its
  \<^verbatim>\<open>concluida\<close> flag, which it negates. Applied twice with the same id it gives back
  the state it started from: every task with every field, and every other field of
  the managers (the storage, written in between, apart).
\<close>

theorem alternarConclusao_duas_vezes:
  "(ident \<notin> id_tarefa ` set (tarefas s) \<longrightarrow> alternarConclusao ident s = (s, []))
   \<and> (\<forall>i. findIndex (\<lambda>t. id_tarefa t = ident) (tarefas s) = Some i \<longrightarrow>
          tarefas (fst (alternarConclusao ident s)) =
            (tarefas s)[i := (tarefas s ! i)\<lparr>concluida := \<not> concluida (tarefas s ! i)\<rparr>])
   \<and> (fst (alternarConclusao ident (fst (alternarConclusao ident s))))
         \<lparr>localStorage := localStorage s\<rparr> = s"
proof (intro conjI impI allI)
  assume "ident \<notin> id_tarefa ` set (tarefas s)"
  then have "findIndex (\<lambda>t. id_tarefa t = ident) (tarefas s) = None"
    by (auto simp: findIndex_None)
  then show "alternarConclusao ident s = (s, [])"
    by (rule alternar_ausente)
next
  fix i
  assume "findIndex (\<lambda>t. id_tarefa t = ident) (tarefas s) = Some i"
  then show "tarefas (fst (alternarConclusao ident s)) =
      (tarefas s)[i := (tarefas s ! i)\<lparr>concluida := \<not> concluida (tarefas s ! i)\<rparr>]"
    by (rule alternar_achado)
next
  let ?s1 = "fst (alternarConclusao ident s)"
  let ?s2 = "fst (alternarConclusao ident ?s1)"
  have a: "?s2\<lparr>tarefas := tarefas ?s1, localStorage := localStorage ?s1\<rparr> = ?s1"
    by (rule alternar_resto)
  have b: "?s1\<lparr>tarefas := tarefas s, localStorage := localStorage s\<rparr> = s"
    by (rule alternar_resto)
  have c: "tarefas ?s2 = tarefas s"
    by (rule alternar_duas_tarefas)
  show "?s2\<lparr>localStorage := localStorage s\<rparr> = s"
    using a b c
    by (metis (no_types) sistema.surjective sistema.update_convs(1,7) sistema.select_convs)
qed

theorem alternarConclusao_duas_vezes_witness:
  "''tarefa_9_zzz'' \<notin> id_tarefa ` set (tarefas sistema_exemplo)
   \<and> alternarConclusao ''tarefa_9_zzz'' sistema_exemplo = (sistema_exemplo, [])
   \<and> findIndex (\<lambda>t. id_tarefa t = ''tarefa_2_bbb'') (tarefas sistema_exemplo) = Some 1
   \<and> tarefas (fst (alternarConclusao ''tarefa_2_bbb'' sistema_exemplo)) =
       [tarefa_relatorio, tarefa_compras\<lparr>concluida := True\<rparr>, tarefa_revisao]
   \<and> (fst (alternarConclusao ''tarefa_2_bbb''
             (fst (alternarConclusao ''tarefa_2_bbb'' sistema_exemplo))))
         \<lparr>localStorage := localStorage sistema_exemplo\<rparr> = sistema_exemplo"
proof -
  have h1: "''tarefa_9_zzz'' \<notin> id_tarefa ` set (tarefas sistema_exemplo)"
    by (simp add: sistema_exemplo_def tarefa_relatorio_def tarefa_compras_def
        tarefa_revisao_def)
  have h2: "findIndex (\<lambda>t. id_tarefa t = ''tarefa_2_bbb'') (tarefas sistema_exemplo) = Some 1"
    by (simp add: sistema_exemplo_def tarefa_relatorio_def tarefa_compras_def
        tarefa_revisao_def)
  have t: "(tarefas sistema_exemplo)
             [1 := (tarefas sistema_exemplo ! 1)
                     \<lparr>concluida := \<not> concluida (tarefas sistema_exemplo ! 1)\<rparr>]
           = [tarefa_relatorio, tarefa_compras\<lparr>concluida := True\<rparr>, tarefa_revisao]"
    by (simp add: sistema_exemplo_def tarefa_compras_def)
  from alternarConclusao_duas_vezes [of "''tarefa_9_zzz''" sistema_exemplo] h1
  have a: "alternarConclusao ''tarefa_9_zzz'' sistema_exemplo = (sistema_exemplo, [])"
    by blast
  from alternarConclusao_duas_vezes [of "''tarefa_2_bbb''" sistema_exemplo] h2
  have b: "tarefas (fst (alternarConclusao ''tarefa_2_bbb'' sistema_exemplo)) =
       (tarefas sistema_exemplo)
             [1 := (tarefas sistema_exemplo ! 1)
                     \<lparr>concluida := \<not> concluida (tarefas sistema_exemplo ! 1)\<rparr>]"
    and c: "(fst (alternarConclusao ''tarefa_2_bbb''
             (fst (alternarConclusao ''tarefa_2_bbb'' sistema_exemplo))))
         \<lparr>localStorage := localStorage sistema_exemplo\<rparr> = sistema_exemplo"
    by blast+
  from h1 h2 a b c t show ?thesis
    by simp
qed

section \<open>Editing a task\<close>

lemma tarefas_salvarTarefa:
  "trim (campo_titulo f) \<noteq> [] \<Longrightarrow>
   tarefas (fst (salvarTarefa amb f s)) =
     (case tarefaEditando s of
        Some e \<Rightarrow>
          (case findIndex (\<lambda>t. id_tarefa t = id_tarefa e) (tarefas s) of
             Some i \<Rightarrow> (tarefas s)[i := dadosTarefa amb f (tarefas s ! i)]
           | None \<Rightarrow> tarefas s)
      | None \<Rightarrow> tarefas s @ [novaTarefa amb f])"
  by (simp add: salvarTarefa_def Let_def cancelarEdicao_tarefa_def salvarTarefas_fst
      case_prod_beta split: option.splits)

text \<open>
  C1. The specification has an edit keep the \<^verbatim>\<open>concluida\<close> flag and the
  \<^verbatim>\<open>dataCriacao\<close> stamp of the task. \<^verbatim>\<open>salvarTarefa\<close> builds one object \<^verbatim>\<open>dadosTarefa\<close> for both
  branches, with \<^verbatim>\<open>concluida: false\<close> and a fresh \<^verbatim>\<open>dataCriacao\<close> in it, and the edit
  branch spreads it over the stored task. Editing the completed task of the example
  state, created on 2024-01-01, on 2025-06-01: its id is kept and its title is the
  new one, but it is pending again and its creation stamp is the time of the edit.
  The other tasks are as they were.
\<close>

theorem salvarTarefa_edicao_reinicia:
  "tarefas (fst (salvarTarefa ambiente_exemplo formulario_exemplo
             (sistema_exemplo\<lparr>tarefaEditando := Some tarefa_relatorio\<rparr>))) =
     [tarefa_relatorio\<lparr>titulo := ''Relatorio final'', concluida := False,
         dataCriacao_tarefa := ''2025-06-01T12:00:00.000Z''\<rparr>, tarefa_compras, tarefa_revisao]"
proof -
  have "trim (campo_titulo formulario_exemplo) \<noteq> []"
    by (simp add: formulario_exemplo_def trim_def espaco_branco_def)
  from tarefas_salvarTarefa [OF this] show ?thesis
    by (simp add: dadosTarefa_def sistema_exemplo_def formulario_exemplo_def ambiente_exemplo_def
      tarefa_relatorio_def tarefa_compras_def tarefa_revisao_def trim_def espaco_branco_def)
qed

section \<open>Adding and renaming a project\<close>

lemma adicionar_sem_nome:
  "trim campo = [] \<Longrightarrow> adicionarProjeto amb campo s = (s, [Alerta NomeObrigatorio])"
  by (simp add: adicionarProjeto_def)

lemma adicionar_duplicado:
  "trim campo \<noteq> [] \<Longrightarrow>
   List.find (mesmo_nome (trim campo) (projetoEditando s)) (projetos s) \<noteq> None \<Longrightarrow>
   adicionarProjeto amb campo s = (s, [Alerta NomeDuplicado])"
  by (simp add: adicionarProjeto_def)

lemma projetos_adicionar:
  "trim campo \<noteq> [] \<Longrightarrow>
   List.find (mesmo_nome (trim campo) (projetoEditando s)) (projetos s) = None \<Longrightarrow>
   projetos (fst (adicionarProjeto amb campo s)) =
     (case projetoEditando s of
        Some e \<Rightarrow>
          (case findIndex (\<lambda>p. id_projeto p = id_projeto e) (projetos s) of
             Some i \<Rightarrow> (projetos s)[i := (projetos s ! i)\<lparr>nome := trim campo\<rparr>]
           | None \<Rightarrow> projetos s)
      | None \<Rightarrow>
          projetos s @
            [\<lparr>id_projeto = gerarId_projeto amb, nome = trim campo,
              dataCriacao_projeto = toISOString amb\<rparr>])"
  by (simp add: adicionarProjeto_def Let_def cancelarEdicao_projeto_def salvarProjetos_fst
      case_prod_beta split: option.splits)

lemma adicionar_aceito_sem_alerta:
  "trim campo \<noteq> [] \<Longrightarrow>
   List.find (mesmo_nome (trim campo) (projetoEditando s)) (projetos s) = None \<Longrightarrow>
   Alerta a \<notin> set (snd (adicionarProjeto amb campo s))"
  by (simp add: adicionarProjeto_def Let_def cancelarEdicao_projeto_def salvarProjetos_snd
      salvar_sem_alerta case_prod_beta split: option.splits)

lemma nomes_distintos_adicionar:
  assumes ids: "projetoEditando s = None \<or> distinct (map id_projeto (projetos s))"
    and nomes: "distinct (map (\<lambda>p. toLowerCase (nome p)) (projetos s))"
  shows "distinct (map (\<lambda>p. toLowerCase (nome p)) (projetos (fst (adicionarProjeto amb campo s))))"
proof (cases "trim campo = [] \<or>
    List.find (mesmo_nome (trim campo) (projetoEditando s)) (projetos s) \<noteq> None")
  case True
  then have "fst (adicionarProjeto amb campo s) = s"
    by (cases "trim campo = []") (simp_all add: adicionar_sem_nome adicionar_duplicado)
  with nomes show ?thesis by simp
next
  case False
  then have n: "trim campo \<noteq> []"
    and f: "List.find (mesmo_nome (trim campo) (projetoEditando s)) (projetos s) = None"
    by auto
  from f have livre: "\<forall>q\<in>set (projetos s). \<not> mesmo_nome (trim campo) (projetoEditando s) q"
    by (simp add: find_None_iff)
  note eq = projetos_adicionar [OF n f, of amb]
  show ?thesis
  proof (cases "projetoEditando s")
    case None
    with livre have "toLowerCase (trim campo) \<notin> (\<lambda>p. toLowerCase (nome p)) ` set (projetos s)"
      by (auto simp: mesmo_nome_def)
    with nomes eq None show ?thesis by simp
  next
    case (Some e)
    show ?thesis
    proof (cases "findIndex (\<lambda>p. id_projeto p = id_projeto e) (projetos s)")
      case None
      with eq Some nomes show ?thesis by simp
    next
      case i: (Some i)
      let ?ps = "projetos s"
      let ?ys = "map (\<lambda>p. toLowerCase (nome p)) ?ps"
      from findIndex_Some [OF i] have l: "i < length ?ps" and ie: "id_projeto (?ps ! i) = id_projeto e"
        by auto
      have outros: "\<forall>j<length ?ys. j \<noteq> i \<longrightarrow> ?ys ! j \<noteq> toLowerCase (trim campo)"
      proof (intro allI impI)
        fix j
        assume j: "j < length ?ys" "j \<noteq> i"
        then have "id_projeto (?ps ! j) \<noteq> id_projeto (?ps ! i)"
          using ids Some l by (auto simp: distinct_conv_nth)
        moreover have "\<not> mesmo_nome (trim campo) (Some e) (?ps ! j)"
          using livre j(1) Some by auto
        ultimately show "?ys ! j \<noteq> toLowerCase (trim campo)"
          using ie j(1) by (auto simp: mesmo_nome_def)
      qed
      have "map (\<lambda>p. toLowerCase (nome p)) (?ps[i := (?ps ! i)\<lparr>nome := trim campo\<rparr>])
              = ?ys[i := toLowerCase (trim campo)]"
        by (simp add: map_update)
      moreover have "distinct (?ys[i := toLowerCase (trim campo)])"
        using nomes l outros by (intro distinct_list_update_novo) simp_all
      ultimately show ?thesis
        using eq Some i by simp
    qed
  qed
qed

lemma proprio_nome_aceito:
  assumes nomes: "distinct (map (\<lambda>p. toLowerCase (nome p)) (projetos s))"
    and ed: "projetoEditando s = Some e" and p: "p \<in> set (projetos s)"
    and ide: "id_projeto p = id_projeto e"
    and igual: "toLowerCase (trim campo) = toLowerCase (nome p)"
  shows "List.find (mesmo_nome (trim campo) (projetoEditando s)) (projetos s) = None"
proof -
  have "\<not> mesmo_nome (trim campo) (Some e) q" if q: "q \<in> set (projetos s)" for q
  proof
    assume m: "mesmo_nome (trim campo) (Some e) q"
    then have "toLowerCase (nome q) = toLowerCase (nome p)" "id_projeto q \<noteq> id_projeto p"
      using igual ide by (auto simp: mesmo_nome_def)
    moreover from nomes p q have "toLowerCase (nome q) = toLowerCase (nome p) \<longrightarrow> q = p"
      by (auto simp: distinct_map inj_on_def)
    ultimately show False by auto
  qed
  with ed show ?thesis
    by (simp add: find_None_iff)
qed

text \<open>
  C10, as stated, fails on a store in which two projects have the same id:
  \<^verbatim>\<open>adicionarProjeto\<close> renames the first project with the id of the edited one.
  Editing the second of the two twins and giving it a new name is accepted, and it
  is the first twin that has the new name; the edited one is as it was.
\<close>

theorem renomear_contraexemplo:
  "projeto_gemeo \<in> set (projetos (sistema_ids_repetidos\<lparr>projetoEditando := Some projeto_gemeo\<rparr>))
   \<and> Alerta NomeObrigatorio
       \<notin> set (snd (adicionarProjeto ambiente_exemplo ''Novo''
                 (sistema_ids_repetidos\<lparr>projetoEditando := Some projeto_gemeo\<rparr>)))
   \<and> Alerta NomeDuplicado
       \<notin> set (snd (adicionarProjeto ambiente_exemplo ''Novo''
                 (sistema_ids_repetidos\<lparr>projetoEditando := Some projeto_gemeo\<rparr>)))
   \<and> projetos (fst (adicionarProjeto ambiente_exemplo ''Novo''
         (sistema_ids_repetidos\<lparr>projetoEditando := Some projeto_gemeo\<rparr>)))
       = [projeto_trabalho\<lparr>nome := ''Novo''\<rparr>, projeto_gemeo]
   \<and> projeto_trabalho\<lparr>nome := ''Novo''\<rparr> \<noteq> projeto_trabalho"
proof -
  let ?s = "sistema_ids_repetidos\<lparr>projetoEditando := Some projeto_gemeo\<rparr>"
  have t: "trim ''Novo'' = ''Novo''"
    by (simp add: trim_def espaco_branco_def)
  have f: "List.find (mesmo_nome (trim ''Novo'') (projetoEditando ?s)) (projetos ?s) = None"
    by (simp add: t sistema_ids_repetidos_def projeto_trabalho_def projeto_gemeo_def
        mesmo_nome_def)
  have n: "trim ''Novo'' \<noteq> []"
    by (simp add: t)
  have depois: "projetos (fst (adicionarProjeto ambiente_exemplo ''Novo'' ?s))
      = [projeto_trabalho\<lparr>nome := ''Novo''\<rparr>, projeto_gemeo]"
    using projetos_adicionar [OF n f, of ambiente_exemplo]
    by (simp add: t sistema_ids_repetidos_def projeto_trabalho_def projeto_gemeo_def)
  have d: "projeto_trabalho\<lparr>nome := ''Novo''\<rparr> \<noteq> projeto_trabalho"
    by (simp add: projeto_trabalho_def)
  have m: "projeto_gemeo \<in> set (projetos ?s)"
    by (simp add: sistema_ids_repetidos_def)
  from adicionar_aceito_sem_alerta [OF n f, of NomeObrigatorio ambiente_exemplo]
    adicionar_aceito_sem_alerta [OF n f, of NomeDuplicado ambiente_exemplo]
    depois d m show ?thesis
    by simp
qed

text \<open>
  C10, amended. In a store whose project ids are distinct, a rename of the project \<open>p\<close> that is
  accepted (no alert is shown) gives the list of before with \<open>p\<close> replaced, in its
  place, by \<open>p\<close> with the trimmed new name: the id and the creation stamp of \<open>p\<close>, every
  other project, the length and the order of the list are as they were.
\<close>

theorem renomear_so_o_nome:
  assumes ids: "distinct (map id_projeto (projetos s))"
    and p: "p \<in> set (projetos s)"
    and ed: "projetoEditando s = Some e" "id_projeto e = id_projeto p"
    and ok: "\<forall>a. Alerta a \<notin> set (snd (adicionarProjeto amb campo s))"
  shows "projetos (fst (adicionarProjeto amb campo s)) =
           map (\<lambda>q. if q = p then p\<lparr>nome := trim campo\<rparr> else q) (projetos s)"
proof -
  from ok have n: "trim campo \<noteq> []"
    by (auto simp: adicionar_sem_nome)
  from ok n have f: "List.find (mesmo_nome (trim campo) (projetoEditando s)) (projetos s) = None"
    using adicionar_duplicado [of campo s amb] by fastforce
  from findIndex_distinct [OF ids p] obtain i
    where i: "findIndex (\<lambda>q. id_projeto q = id_projeto p) (projetos s) = Some i"
      "i < length (projetos s)" "projetos s ! i = p"
    by blast
  from ids have d: "distinct (projetos s)"
    by (rule distinct_map [THEN iffD1, THEN conjunct1])
  have "projetos (fst (adicionarProjeto amb campo s)) = (projetos s)[i := p\<lparr>nome := trim campo\<rparr>]"
    using projetos_adicionar [OF n f, of amb] ed i by simp
  also have "\<dots> = map (\<lambda>q. if q = p then p\<lparr>nome := trim campo\<rparr> else q) (projetos s)"
    using list_update_map [OF d i(2)] i(3) by simp
  finally show ?thesis .
qed

theorem renomear_so_o_nome_witness:
  "distinct (map id_projeto (projetos (sistema_exemplo\<lparr>projetoEditando := Some projeto_casa\<rparr>)))
   \<and> projeto_casa \<in> set (projetos (sistema_exemplo\<lparr>projetoEditando := Some projeto_casa\<rparr>))
   \<and> projetos (fst (adicionarProjeto ambiente_exemplo ''  Lar ''
                     (sistema_exemplo\<lparr>projetoEditando := Some projeto_casa\<rparr>))) =
       [projeto_trabalho, projeto_casa\<lparr>nome := ''Lar''\<rparr>]"
proof -
  let ?s = "sistema_exemplo\<lparr>projetoEditando := Some projeto_casa\<rparr>"
  have t: "trim ''  Lar '' = ''Lar''"
    by (simp add: trim_def espaco_branco_def)
  have ids: "distinct (map id_projeto (projetos ?s))"
    by (simp add: sistema_exemplo_def projeto_trabalho_def projeto_casa_def)
  have p: "projeto_casa \<in> set (projetos ?s)"
    by (simp add: sistema_exemplo_def)
  have f: "List.find (mesmo_nome (trim ''  Lar '') (projetoEditando ?s)) (projetos ?s) = None"
    unfolding t
    by (simp add: sistema_exemplo_def projeto_trabalho_def projeto_casa_def mesmo_nome_def
        toLowerCase_def minuscula_def)
  have ok: "\<forall>a. Alerta a \<notin> set (snd (adicionarProjeto ambiente_exemplo ''  Lar '' ?s))"
    using adicionar_aceito_sem_alerta [OF _ f] by (simp add: t)
  have d: "projeto_trabalho \<noteq> projeto_casa"
    by (simp add: projeto_trabalho_def projeto_casa_def)
  from renomear_so_o_nome [OF ids p _ _ ok, of projeto_casa] ids p d show ?thesis
    by (simp add: t sistema_exemplo_def)
qed

text \<open>
  C5, as stated, fails on a store in which two projects have the same id: the search
  for a duplicate skips every project with the id of the edited one, and the rename
  goes to the first of them. Renaming the first project of such a store to the name
  of its twin is accepted and leaves two projects of one name.
\<close>

theorem nomes_unicos_contraexemplo:
  "distinct (map (\<lambda>p. toLowerCase (nome p))
     (projetos (sistema_ids_repetidos\<lparr>projetoEditando := Some projeto_trabalho\<rparr>)))
   \<and> projetos (fst (adicionarProjeto ambiente_exemplo ''Outro''
         (sistema_ids_repetidos\<lparr>projetoEditando := Some projeto_trabalho\<rparr>)))
       = [projeto_trabalho\<lparr>nome := ''Outro''\<rparr>, projeto_gemeo]
   \<and> \<not> distinct (map (\<lambda>p. toLowerCase (nome p))
         (projetos (fst (adicionarProjeto ambiente_exemplo ''Outro''
           (sistema_ids_repetidos\<lparr>projetoEditando := Some projeto_trabalho\<rparr>)))))"
proof -
  let ?s = "sistema_ids_repetidos\<lparr>projetoEditando := Some projeto_trabalho\<rparr>"
  have t: "trim ''Outro'' = ''Outro''"
    by (simp add: trim_def espaco_branco_def)
  have l: "toLowerCase ''Work'' = ''work''" "toLowerCase ''Outro'' = ''outro''"
    by code_simp+
  have antes: "distinct (map (\<lambda>p. toLowerCase (nome p)) (projetos ?s))"
    by (simp add: sistema_ids_repetidos_def projeto_trabalho_def projeto_gemeo_def l)
  have f: "List.find (mesmo_nome (trim ''Outro'') (projetoEditando ?s)) (projetos ?s) = None"
    by (simp add: t sistema_ids_repetidos_def projeto_trabalho_def projeto_gemeo_def
        mesmo_nome_def)
  have depois: "projetos (fst (adicionarProjeto ambiente_exemplo ''Outro'' ?s))
      = [projeto_trabalho\<lparr>nome := ''Outro''\<rparr>, projeto_gemeo]"
    using projetos_adicionar [OF _ f, of ambiente_exemplo]
    by (simp add: t sistema_ids_repetidos_def projeto_trabalho_def projeto_gemeo_def)
  have "\<not> distinct (map (\<lambda>p. toLowerCase (nome p))
      [projeto_trabalho\<lparr>nome := ''Outro''\<rparr>, projeto_gemeo])"
    by (simp add: projeto_gemeo_def)
  with antes depois show ?thesis
    by simp
qed

text \<open>
  C5, amended. In a store whose names are distinct up to case, and whose project ids
  are distinct when a project is being edited, \<^verbatim>\<open>adicionarProjeto\<close> keeps the names
  distinct up to case, whatever the form holds: creating needs nothing of the ids,
  renaming needs them distinct. Creating a project whose trimmed name is, up to case,
  the name of a stored project is refused with the alert for a duplicate and the
  state is unchanged. When editing, the search for a duplicate skips the project that
  is edited: a rename to its own name, up to case, is accepted.
\<close>

theorem nomes_unicos_preservados:
  assumes ids: "projetoEditando s = None \<or> distinct (map id_projeto (projetos s))"
    and nomes: "distinct (map (\<lambda>p. toLowerCase (nome p)) (projetos s))"
  shows "distinct (map (\<lambda>p. toLowerCase (nome p)) (projetos (fst (adicionarProjeto amb campo s))))
    \<and> (projetoEditando s = None \<and> trim campo \<noteq> [] \<and>
         toLowerCase (trim campo) \<in> (\<lambda>p. toLowerCase (nome p)) ` set (projetos s)
       \<longrightarrow> adicionarProjeto amb campo s = (s, [Alerta NomeDuplicado]))
    \<and> (\<forall>e p. projetoEditando s = Some e \<and> p \<in> set (projetos s) \<and> id_projeto p = id_projeto e \<and>
              trim campo \<noteq> [] \<and> toLowerCase (trim campo) = toLowerCase (nome p)
         \<longrightarrow> (\<forall>a. Alerta a \<notin> set (snd (adicionarProjeto amb campo s))) \<and>
             projetos (fst (adicionarProjeto amb campo s)) =
               map (\<lambda>q. if q = p then p\<lparr>nome := trim campo\<rparr> else q) (projetos s))"
proof (intro conjI impI allI)
  show "distinct (map (\<lambda>p. toLowerCase (nome p)) (projetos (fst (adicionarProjeto amb campo s))))"
    by (rule nomes_distintos_adicionar [OF ids nomes])
next
  assume a: "projetoEditando s = None \<and> trim campo \<noteq> [] \<and>
         toLowerCase (trim campo) \<in> (\<lambda>p. toLowerCase (nome p)) ` set (projetos s)"
  then obtain q where "q \<in> set (projetos s)" "mesmo_nome (trim campo) (projetoEditando s) q"
    by (auto simp: mesmo_nome_def)
  then have "List.find (mesmo_nome (trim campo) (projetoEditando s)) (projetos s) \<noteq> None"
    by (auto simp: find_None_iff)
  with a show "adicionarProjeto amb campo s = (s, [Alerta NomeDuplicado])"
    by (intro adicionar_duplicado) simp_all
next
  fix e p a
  assume h: "projetoEditando s = Some e \<and> p \<in> set (projetos s) \<and> id_projeto p = id_projeto e \<and>
              trim campo \<noteq> [] \<and> toLowerCase (trim campo) = toLowerCase (nome p)"
  then have f: "List.find (mesmo_nome (trim campo) (projetoEditando s)) (projetos s) = None"
    by (intro proprio_nome_aceito [OF nomes]) simp_all
  from h f show "Alerta a \<notin> set (snd (adicionarProjeto amb campo s))"
    by (intro adicionar_aceito_sem_alerta) simp_all
next
  fix e p
  assume h: "projetoEditando s = Some e \<and> p \<in> set (projetos s) \<and> id_projeto p = id_projeto e \<and>
              trim campo \<noteq> [] \<and> toLowerCase (trim campo) = toLowerCase (nome p)"
  then have f: "List.find (mesmo_nome (trim campo) (projetoEditando s)) (projetos s) = None"
    by (intro proprio_nome_aceito [OF nomes]) simp_all
  from ids h have ids': "distinct (map id_projeto (projetos s))"
    by simp
  from findIndex_distinct [OF ids', of p] h obtain i
    where i: "findIndex (\<lambda>q. id_projeto q = id_projeto p) (projetos s) = Some i"
      "i < length (projetos s)" "projetos s ! i = p"
    by blast
  from ids' have d: "distinct (projetos s)"
    by (rule distinct_map [THEN iffD1, THEN conjunct1])
  have "projetos (fst (adicionarProjeto amb campo s)) = (projetos s)[i := p\<lparr>nome := trim campo\<rparr>]"
    using projetos_adicionar [OF _ f, of amb] h i by simp
  also have "\<dots> = map (\<lambda>q. if q = p then p\<lparr>nome := trim campo\<rparr> else q) (projetos s)"
    using list_update_map [OF d i(2)] i(3) by simp
  finally show "projetos (fst (adicionarProjeto amb campo s)) =
               map (\<lambda>q. if q = p then p\<lparr>nome := trim campo\<rparr> else q) (projetos s)" .
qed

theorem nomes_unicos_preservados_witness:
  "distinct (map id_projeto (projetos sistema_exemplo))
   \<and> distinct (map (\<lambda>p. toLowerCase (nome p)) (projetos sistema_exemplo))
   \<and> adicionarProjeto ambiente_exemplo '' work '' sistema_exemplo
       = (sistema_exemplo, [Alerta NomeDuplicado])
   \<and> projetos (fst (adicionarProjeto ambiente_exemplo ''WORK''
                     (sistema_exemplo\<lparr>projetoEditando := Some projeto_trabalho\<rparr>))) =
       [projeto_trabalho\<lparr>nome := ''WORK''\<rparr>, projeto_casa]
   \<and> distinct (map (\<lambda>p. toLowerCase (nome p))
        (projetos (fst (adicionarProjeto ambiente_exemplo ''Estudos'' sistema_exemplo))))"
proof -
  let ?s = "sistema_exemplo\<lparr>projetoEditando := Some projeto_trabalho\<rparr>"
  have t: "trim '' work '' = ''work''" "trim ''WORK'' = ''WORK''"
    by (simp_all add: trim_def espaco_branco_def)
  have l: "toLowerCase ''work'' = ''work''" "toLowerCase ''WORK'' = ''work''"
    "toLowerCase ''Work'' = ''work''" "toLowerCase ''Casa'' = ''casa''"
    by code_simp+
  have ids: "distinct (map id_projeto (projetos sistema_exemplo))"
    by (simp add: sistema_exemplo_def projeto_trabalho_def projeto_casa_def)
  have nomes: "distinct (map (\<lambda>p. toLowerCase (nome p)) (projetos sistema_exemplo))"
    by (simp add: sistema_exemplo_def projeto_trabalho_def projeto_casa_def l)
  have criando: "projetoEditando sistema_exemplo = None \<or>
      distinct (map id_projeto (projetos sistema_exemplo))"
    by (simp add: sistema_exemplo_def)
  have ids': "projetoEditando ?s = None \<or> distinct (map id_projeto (projetos ?s))"
    using ids by (simp add: sistema_exemplo_def)
  have nomes': "distinct (map (\<lambda>p. toLowerCase (nome p)) (projetos ?s))"
    using nomes by (simp add: sistema_exemplo_def)
  have d: "projeto_casa \<noteq> projeto_trabalho"
    by (simp add: projeto_trabalho_def projeto_casa_def)
  have a: "adicionarProjeto ambiente_exemplo '' work '' sistema_exemplo
       = (sistema_exemplo, [Alerta NomeDuplicado])"
    using nomes_unicos_preservados [OF criando nomes, of ambiente_exemplo "'' work ''"]
    by (simp add: t l sistema_exemplo_def projeto_trabalho_def)
  have b: "projetos (fst (adicionarProjeto ambiente_exemplo ''WORK'' ?s)) =
       [projeto_trabalho\<lparr>nome := ''WORK''\<rparr>, projeto_casa]"
  proof -
    have "projetoEditando ?s = Some projeto_trabalho \<and> projeto_trabalho \<in> set (projetos ?s) \<and>
        id_projeto projeto_trabalho = id_projeto projeto_trabalho \<and>
        trim ''WORK'' \<noteq> [] \<and> toLowerCase (trim ''WORK'') = toLowerCase (nome projeto_trabalho)"
      by (simp add: t l sistema_exemplo_def projeto_trabalho_def)
    with nomes_unicos_preservados [OF ids' nomes', of ambiente_exemplo "''WORK''"]
    have "projetos (fst (adicionarProjeto ambiente_exemplo ''WORK'' ?s)) =
        map (\<lambda>q. if q = projeto_trabalho then projeto_trabalho\<lparr>nome := trim ''WORK''\<rparr> else q)
          (projetos ?s)"
      by blast
    then show ?thesis
      using d by (simp add: t sistema_exemplo_def)
  qed
  have c: "distinct (map (\<lambda>p. toLowerCase (nome p))
        (projetos (fst (adicionarProjeto ambiente_exemplo ''Estudos'' sistema_exemplo))))"
    using nomes_unicos_preservados [OF criando nomes, of ambiente_exemplo "''Estudos''"] by blast
  from ids nomes a b c show ?thesis
    by blast
qed

section \<open>Deleting a project\<close>

lemma find_findIndex: "List.find P xs = None \<longleftrightarrow> findIndex P xs = None"
  by (auto simp add: find_None_iff findIndex_None)

lemma splice1_filter:
  "distinct (map f xs) \<Longrightarrow> findIndex (\<lambda>q. f q = a) xs = Some i \<Longrightarrow>
   splice1 i xs = filter (\<lambda>q. f q \<noteq> a) xs"
proof (induction xs arbitrary: i)
  case Nil
  then show ?case by simp
next
  case (Cons x xs)
  show ?case
  proof (cases "f x = a")
    case True
    with Cons.prems have "i = 0" "\<forall>q\<in>set xs. f q \<noteq> a"
      by (auto simp: image_iff)
    with True show ?thesis
      by (simp add: splice1_def)
  next
    case False
    with Cons.prems obtain k where k: "findIndex (\<lambda>q. f q = a) xs = Some k" "i = Suc k"
      by auto
    from Cons.prems(1) have "distinct (map f xs)" by simp
    from Cons.IH [OF this k(1)] False k(2) show ?thesis
      by (simp add: splice1_def)
  qed
qed

lemma salvar_sem_confirmar: "Confirmar q \<notin> set (snd (salvar chave dados ls))"
  by (simp add: salvar_def split: sum.splits)

lemma removerProjeto_achado:
  assumes i: "findIndex (\<lambda>p. id_projeto p = ident) (projetos s) = Some i"
    and c: "resposta \<or> filter (\<lambda>t. projetoId t = Some ident) (tarefas s) = []"
  shows "tarefas (fst (removerProjeto ident resposta s)) =
           map (\<lambda>t. if projetoId t = Some ident then t\<lparr>projetoId := None\<rparr> else t) (tarefas s)"
    and "projetos (fst (removerProjeto ident resposta s)) = splice1 i (projetos s)"
    and "filter (\<lambda>e. \<exists>q. e = Confirmar q) (snd (removerProjeto ident resposta s)) =
           (if filter (\<lambda>t. projetoId t = Some ident) (tarefas s) = [] then []
            else [Confirmar (ExcluirProjeto (length (filter (\<lambda>t. projetoId t = Some ident) (tarefas s))))])"
proof -
  from i have "findIndex (\<lambda>p. id_projeto p = ident) (projetos s) \<noteq> None"
    by simp
  then obtain q where q: "List.find (\<lambda>p. id_projeto p = ident) (projetos s) = Some q"
    by (auto simp flip: find_findIndex)
  show "tarefas (fst (removerProjeto ident resposta s)) =
           map (\<lambda>t. if projetoId t = Some ident then t\<lparr>projetoId := None\<rparr> else t) (tarefas s)"
    using q i c
    by (auto simp add: removerProjeto_def Let_def case_prod_beta salvarTarefas_fst salvarProjetos_fst
        selecionarProjeto_def definirProjetoAtivo_def)
  show "projetos (fst (removerProjeto ident resposta s)) = splice1 i (projetos s)"
    using q i c
    by (auto simp add: removerProjeto_def Let_def case_prod_beta salvarTarefas_fst salvarProjetos_fst
        selecionarProjeto_def definirProjetoAtivo_def)
  show "filter (\<lambda>e. \<exists>q. e = Confirmar q) (snd (removerProjeto ident resposta s)) =
           (if filter (\<lambda>t. projetoId t = Some ident) (tarefas s) = [] then []
            else [Confirmar (ExcluirProjeto (length (filter (\<lambda>t. projetoId t = Some ident) (tarefas s))))])"
    using q i c
    by (auto simp add: removerProjeto_def Let_def case_prod_beta salvarTarefas_fst salvarProjetos_fst
        salvarTarefas_snd salvarProjetos_snd salvar_def
        selecionarProjeto_def definirProjetoAtivo_def split: sum.splits)
qed

text \<open>
  C3, as stated, fails on a store in which two projects have the same id:
  \<^verbatim>\<open>removerProjeto\<close> looks the project up by id and removes the first one it finds.
  Deleting the second of the two twins, with the confirmation given, removes the
  first; the second is still in the list.
\<close>

theorem removerProjeto_contraexemplo:
  "projeto_gemeo \<in> set (projetos sistema_ids_repetidos)
   \<and> projetos (fst (removerProjeto (id_projeto projeto_gemeo) True sistema_ids_repetidos))
       = [projeto_gemeo]
   \<and> projeto_gemeo
       \<in> set (projetos (fst (removerProjeto (id_projeto projeto_gemeo) True
                 sistema_ids_repetidos)))"
proof -
  have i: "findIndex (\<lambda>q. id_projeto q = id_projeto projeto_gemeo)
      (projetos sistema_ids_repetidos) = Some 0"
    by (simp add: sistema_ids_repetidos_def projeto_trabalho_def projeto_gemeo_def)
  from removerProjeto_achado(2) [OF i, of True]
  have "projetos (fst (removerProjeto (id_projeto projeto_gemeo) True sistema_ids_repetidos))
      = [projeto_gemeo]"
    by (simp add: splice1_def sistema_ids_repetidos_def)
  then show ?thesis
    by (simp add: sistema_ids_repetidos_def)
qed

text \<open>
  C3, amended. Deleting the stored project \<open>p\<close>, when the user confirms or when no
  task refers to \<open>p\<close>, leaves the task list with \<^verbatim>\<open>projetoId\<close> set to \<^verbatim>\<open>null\<close> on exactly
  the tasks that referred to \<open>p\<close> and every other task (and every other field) as it
  was, and removes from the project list the first project with the id of \<open>p\<close>. In a
  store whose project ids are distinct that project is \<open>p\<close>: the project list is the
  list of before without \<open>p\<close>, the others in their order. When no task refers to \<open>p\<close>
  no confirmation is asked, whatever the answer would have been; when \<open>N > 0\<close> tasks
  do, the confirmation is asked with the count \<open>N\<close>.
\<close>

theorem removerProjeto_confirmado:
  assumes p: "p \<in> set (projetos s)"
    and c: "resposta \<or> (\<forall>t\<in>set (tarefas s). projetoId t \<noteq> Some (id_projeto p))"
  shows "tarefas (fst (removerProjeto (id_projeto p) resposta s)) =
           map (\<lambda>t. if projetoId t = Some (id_projeto p) then t\<lparr>projetoId := None\<rparr> else t)
             (tarefas s)
    \<and> (\<exists>i. findIndex (\<lambda>q. id_projeto q = id_projeto p) (projetos s) = Some i \<and>
            projetos (fst (removerProjeto (id_projeto p) resposta s)) = splice1 i (projetos s))
    \<and> (distinct (map id_projeto (projetos s)) \<longrightarrow>
          projetos (fst (removerProjeto (id_projeto p) resposta s)) =
            filter (\<lambda>q. id_projeto q \<noteq> id_projeto p) (projetos s)
          \<and> p \<notin> set (projetos (fst (removerProjeto (id_projeto p) resposta s))))
    \<and> ((\<forall>t\<in>set (tarefas s). projetoId t \<noteq> Some (id_projeto p)) \<longrightarrow>
          (\<forall>q. Confirmar q \<notin> set (snd (removerProjeto (id_projeto p) resposta s))))
    \<and> ((\<exists>t\<in>set (tarefas s). projetoId t = Some (id_projeto p)) \<longrightarrow>
          Confirmar (ExcluirProjeto
            (length (filter (\<lambda>t. projetoId t = Some (id_projeto p)) (tarefas s))))
            \<in> set (snd (removerProjeto (id_projeto p) resposta s)))"
proof -
  let ?R = "removerProjeto (id_projeto p) resposta s"
  let ?assoc = "filter (\<lambda>t. projetoId t = Some (id_projeto p)) (tarefas s)"
  from p have "findIndex (\<lambda>q. id_projeto q = id_projeto p) (projetos s) \<noteq> None"
    by (auto simp: findIndex_None)
  then obtain i
    where i: "findIndex (\<lambda>q. id_projeto q = id_projeto p) (projetos s) = Some i"
    by blast
  from c have c': "resposta \<or> ?assoc = []"
    by (auto simp: filter_empty_conv)
  note r = removerProjeto_achado [OF i c']
  have pr: "projetos (fst ?R) = filter (\<lambda>q. id_projeto q \<noteq> id_projeto p) (projetos s)"
    if ids: "distinct (map id_projeto (projetos s))"
    using r(2) splice1_filter [OF ids i] by simp
  have ev: "Confirmar q \<in> set (snd ?R) \<longleftrightarrow>
      ?assoc \<noteq> [] \<and> q = ExcluirProjeto (length ?assoc)" for q
  proof -
    have "Confirmar q \<in> set (snd ?R) \<longleftrightarrow>
        Confirmar q \<in> set (filter (\<lambda>e. \<exists>q. e = Confirmar q) (snd ?R))"
      by auto
    also have "\<dots> \<longleftrightarrow> ?assoc \<noteq> [] \<and> q = ExcluirProjeto (length ?assoc)"
      unfolding r(3) by auto
    finally show ?thesis .
  qed
  show ?thesis
  proof (intro conjI impI allI)
    show "tarefas (fst ?R) =
        map (\<lambda>t. if projetoId t = Some (id_projeto p) then t\<lparr>projetoId := None\<rparr> else t) (tarefas s)"
      by (rule r(1))
    show "\<exists>i. findIndex (\<lambda>q. id_projeto q = id_projeto p) (projetos s) = Some i \<and>
            projetos (fst ?R) = splice1 i (projetos s)"
      using i r(2) by blast
  next
    assume ids: "distinct (map id_projeto (projetos s))"
    show "projetos (fst ?R) = filter (\<lambda>q. id_projeto q \<noteq> id_projeto p) (projetos s)"
      by (rule pr [OF ids])
    show "p \<notin> set (projetos (fst ?R))"
      by (simp add: pr [OF ids])
  next
    fix q
    assume "\<forall>t\<in>set (tarefas s). projetoId t \<noteq> Some (id_projeto p)"
    then have "?assoc = []"
      by (auto simp: filter_empty_conv)
    then show "Confirmar q \<notin> set (snd ?R)"
      by (simp add: ev)
  next
    assume "\<exists>t\<in>set (tarefas s). projetoId t = Some (id_projeto p)"
    then have "?assoc \<noteq> []"
      by (auto simp: filter_empty_conv)
    then show "Confirmar (ExcluirProjeto (length ?assoc)) \<in> set (snd ?R)"
      by (simp add: ev)
  qed
qed

theorem removerProjeto_confirmado_witness:
  "projeto_trabalho \<in> set (projetos sistema_exemplo)
   \<and> distinct (map id_projeto (projetos sistema_exemplo))
   \<and> tarefas (fst (removerProjeto ''projeto_1_ppp'' True sistema_exemplo)) =
       [tarefa_relatorio\<lparr>projetoId := None\<rparr>, tarefa_compras, tarefa_revisao\<lparr>projetoId := None\<rparr>]
   \<and> projetos (fst (removerProjeto ''projeto_1_ppp'' True sistema_exemplo)) = [projeto_casa]
   \<and> Confirmar (ExcluirProjeto 2) \<in> set (snd (removerProjeto ''projeto_1_ppp'' True sistema_exemplo))
   \<and> projetos (fst (removerProjeto ''projeto_2_qqq'' False sistema_exemplo)) = [projeto_trabalho]
   \<and> Confirmar (ExcluirProjeto 0) \<notin> set (snd (removerProjeto ''projeto_2_qqq'' False sistema_exemplo))"
proof -
  have ids: "distinct (map id_projeto (projetos sistema_exemplo))"
    by (simp add: sistema_exemplo_def projeto_trabalho_def projeto_casa_def)
  have p1: "projeto_trabalho \<in> set (projetos sistema_exemplo)"
    and p2: "projeto_casa \<in> set (projetos sistema_exemplo)"
    by (simp_all add: sistema_exemplo_def)
  have i1: "id_projeto projeto_trabalho = ''projeto_1_ppp''"
    and i2: "id_projeto projeto_casa = ''projeto_2_qqq''"
    by (simp_all add: projeto_trabalho_def projeto_casa_def)
  have t: "tarefas sistema_exemplo = [tarefa_relatorio, tarefa_compras, tarefa_revisao]"
    "projetos sistema_exemplo = [projeto_trabalho, projeto_casa]"
    by (simp_all add: sistema_exemplo_def)
  have pj: "projetoId tarefa_relatorio = Some ''projeto_1_ppp''" "projetoId tarefa_compras = None"
    "projetoId tarefa_revisao = Some ''projeto_1_ppp''"
    by (simp_all add: tarefa_relatorio_def tarefa_compras_def tarefa_revisao_def)
  have c2: "False \<or> (\<forall>t\<in>set (tarefas sistema_exemplo). projetoId t \<noteq> Some (id_projeto projeto_casa))"
    by (simp add: t pj i2)
  from removerProjeto_confirmado [OF p1, of True]
    removerProjeto_confirmado [OF p2 c2] ids p1 show ?thesis
    by (simp add: t pj i1 i2 numeral_2_eq_2 splice1_def)
qed

section \<open>Distinct project ids are kept\<close>

text \<open>
  The statements above that ask for distinct project ids ask for something the two
  operations on the project list keep: deleting always, adding as long as
  \<^verbatim>\<open>gerarId\<close> gives an id that no stored project has.
\<close>

lemma ids_distintos_adicionar:
  assumes ids: "distinct (map id_projeto (projetos s))"
    and novo: "gerarId_projeto amb \<notin> id_projeto ` set (projetos s)"
  shows "distinct (map id_projeto (projetos (fst (adicionarProjeto amb campo s))))"
proof (cases "trim campo = [] \<or>
    List.find (mesmo_nome (trim campo) (projetoEditando s)) (projetos s) \<noteq> None")
  case True
  then have "fst (adicionarProjeto amb campo s) = s"
    by (cases "trim campo = []") (simp_all add: adicionar_sem_nome adicionar_duplicado)
  with ids show ?thesis by simp
next
  case False
  then have n: "trim campo \<noteq> []"
    and f: "List.find (mesmo_nome (trim campo) (projetoEditando s)) (projetos s) = None"
    by auto
  note eq = projetos_adicionar [OF n f, of amb]
  show ?thesis
  proof (cases "projetoEditando s")
    case None
    with eq ids novo show ?thesis by simp
  next
    case (Some e)
    show ?thesis
    proof (cases "findIndex (\<lambda>p. id_projeto p = id_projeto e) (projetos s)")
      case None
      with eq Some ids show ?thesis by simp
    next
      case i: (Some i)
      from findIndex_Some [OF i] have l: "i < length (projetos s)"
        by simp
      have "map id_projeto ((projetos s)[i := (projetos s ! i)\<lparr>nome := trim campo\<rparr>])
          = map id_projeto (projetos s)"
        using l by (simp add: map_update list_update_same_conv)
      with eq Some i ids show ?thesis by simp
    qed
  qed
qed

lemma distinct_splice1: "distinct ys \<Longrightarrow> distinct (splice1 i ys)"
proof -
  assume d: "distinct ys"
  have "set (take i ys) \<inter> set (drop (Suc i) ys) \<subseteq> set (take i ys) \<inter> set (drop i ys)"
    using set_drop_subset_set_drop [of i "Suc i" ys] by auto
  also have "\<dots> = {}"
    using d by (rule set_take_disj_set_drop_if_distinct) simp
  finally show ?thesis
    using d by (simp add: splice1_def)
qed

lemma projetos_removerProjeto:
  "projetos (fst (removerProjeto ident resposta s)) = projetos s \<or>
   (\<exists>i. projetos (fst (removerProjeto ident resposta s)) = splice1 i (projetos s))"
  by (auto simp add: removerProjeto_def Let_def case_prod_beta salvarTarefas_fst salvarProjetos_fst
      selecionarProjeto_def definirProjetoAtivo_def split: option.splits)

lemma ids_distintos_remover:
  assumes "distinct (map id_projeto (projetos s))"
  shows "distinct (map id_projeto (projetos (fst (removerProjeto ident resposta s))))"
proof -
  have "map id_projeto (splice1 i (projetos s)) = splice1 i (map id_projeto (projetos s))" for i
    by (simp add: splice1_def take_map drop_map)
  with projetos_removerProjeto [of ident resposta s] assms show ?thesis
    by (auto simp: distinct_splice1)
qed

section \<open>Filtering the tasks\<close>

lemma cenario_home:
  "(let s1 = fst (adicionarProjeto amb1 ''Home'' (sistema_inicial (ls\<lparr>itens := Map.empty\<rparr>)));
        home = gerarId_projeto amb1;
        s2 = fst (salvarTarefa amb2
                   \<lparr>campo_titulo = ''Buy milk'', campo_descricao = [],
                    campo_dataVencimento = [], campo_prioridade = ''alta'',
                    campo_projeto = home\<rparr> s1);
        s3 = fst (selecionarProjeto home s2);
        s4 = fst (aplicarFiltro ''pendentes'' s3)
    in projetos s1 =
         [\<lparr>id_projeto = home, nome = ''Home'', dataCriacao_projeto = toISOString amb1\<rparr>]
       \<and> obterTarefasFiltradas s4 =
         [\<lparr>id_tarefa = gerarId_tarefa amb2, titulo = ''Buy milk'', descricao = [],
           dataVencimento = [], prioridade = ''alta'', projetoId = Some home,
           concluida = False, dataCriacao_tarefa = toISOString amb2\<rparr>])"
proof -
  have t: "trim ''Home'' = ''Home''" "trim ''Buy milk'' = ''Buy milk''" "trim [] = []"
    by (simp_all add: trim_def espaco_branco_def)
  show ?thesis
    by (simp add: Let_def adicionarProjeto_def salvarTarefa_def t case_prod_beta
        salvarProjetos_fst salvarTarefas_fst cancelarEdicao_projeto_def cancelarEdicao_tarefa_def
        sistema_inicial_def selecionarProjeto_def definirProjetoAtivo_def aplicarFiltro_def
        obterTarefasFiltradas_def novaTarefa_def dadosTarefa_def gerarId_projeto_def)
qed

text \<open>
  C4. With an active project other than \<^verbatim>\<open>"todos"\<close> and the filter \<^verbatim>\<open>"pendentes"\<close>,
  \<^verbatim>\<open>obterTarefasFiltradas\<close> returns exactly the tasks of that project that are not
  completed, in the order of the list; with \<^verbatim>\<open>"todos"\<close> the project is not looked at
  and the pending tasks of every project are returned. The scenario, from a page
  opened on an empty storage, at any times and whatever the storage accepts: create the project
  Home, create the task Buy milk of high priority in it, select Home and the filter
  for pending tasks; the filtered list is that one task.
\<close>

theorem filtro_projeto_pendentes:
  "(projetoAtivo s \<noteq> ''todos'' \<and> filtroAtivo s = ''pendentes'' \<longrightarrow>
      obterTarefasFiltradas s =
        filter (\<lambda>t. projetoId t = Some (projetoAtivo s) \<and> \<not> concluida t) (tarefas s))
   \<and> (projetoAtivo s = ''todos'' \<and> filtroAtivo s = ''pendentes'' \<longrightarrow>
      obterTarefasFiltradas s = filter (\<lambda>t. \<not> concluida t) (tarefas s))
   \<and> (let s1 = fst (adicionarProjeto amb1 ''Home'' (sistema_inicial (ls\<lparr>itens := Map.empty\<rparr>)));
        home = gerarId_projeto amb1;
        s2 = fst (salvarTarefa amb2
                   \<lparr>campo_titulo = ''Buy milk'', campo_descricao = [],
                    campo_dataVencimento = [], campo_prioridade = ''alta'',
                    campo_projeto = home\<rparr> s1);
        s3 = fst (selecionarProjeto home s2);
        s4 = fst (aplicarFiltro ''pendentes'' s3)
    in projetos s1 =
         [\<lparr>id_projeto = home, nome = ''Home'', dataCriacao_projeto = toISOString amb1\<rparr>]
       \<and> obterTarefasFiltradas s4 =
         [\<lparr>id_tarefa = gerarId_tarefa amb2, titulo = ''Buy milk'', descricao = [],
           dataVencimento = [], prioridade = ''alta'', projetoId = Some home,
           concluida = False, dataCriacao_tarefa = toISOString amb2\<rparr>])"
proof (intro conjI impI)
  assume "projetoAtivo s \<noteq> ''todos'' \<and> filtroAtivo s = ''pendentes''"
  then show "obterTarefasFiltradas s =
        filter (\<lambda>t. projetoId t = Some (projetoAtivo s) \<and> \<not> concluida t) (tarefas s)"
    by (simp add: obterTarefasFiltradas_def conj_commute)
next
  assume "projetoAtivo s = ''todos'' \<and> filtroAtivo s = ''pendentes''"
  then show "obterTarefasFiltradas s = filter (\<lambda>t. \<not> concluida t) (tarefas s)"
    by (simp add: obterTarefasFiltradas_def)
next
  show "(let s1 = fst (adicionarProjeto amb1 ''Home'' (sistema_inicial (ls\<lparr>itens := Map.empty\<rparr>)));
        home = gerarId_projeto amb1;
        s2 = fst (salvarTarefa amb2
                   \<lparr>campo_titulo = ''Buy milk'', campo_descricao = [],
                    campo_dataVencimento = [], campo_prioridade = ''alta'',
                    campo_projeto = home\<rparr> s1);
        s3 = fst (selecionarProjeto home s2);
        s4 = fst (aplicarFiltro ''pendentes'' s3)
    in projetos s1 =
         [\<lparr>id_projeto = home, nome = ''Home'', dataCriacao_projeto = toISOString amb1\<rparr>]
       \<and> obterTarefasFiltradas s4 =
         [\<lparr>id_tarefa = gerarId_tarefa amb2, titulo = ''Buy milk'', descricao = [],
           dataVencimento = [], prioridade = ''alta'', projetoId = Some home,
           concluida = False, dataCriacao_tarefa = toISOString amb2\<rparr>])"
    by (rule cenario_home)
qed

theorem filtro_projeto_pendentes_witness:
  "obterTarefasFiltradas
     (sistema_exemplo\<lparr>projetoAtivo := ''projeto_1_ppp'', filtroAtivo := ''pendentes''\<rparr>)
     = [tarefa_revisao]
   \<and> obterTarefasFiltradas (sistema_exemplo\<lparr>filtroAtivo := ''pendentes''\<rparr>)
     = [tarefa_compras, tarefa_revisao]"
  using filtro_projeto_pendentes [of "sistema_exemplo\<lparr>projetoAtivo := ''projeto_1_ppp'', filtroAtivo := ''pendentes''\<rparr>"
      ambiente_exemplo armazenamento_exemplo ambiente_exemplo]
    filtro_projeto_pendentes [of "sistema_exemplo\<lparr>filtroAtivo := ''pendentes''\<rparr>"
      ambiente_exemplo armazenamento_exemplo ambiente_exemplo]
  by (simp add: sistema_exemplo_def tarefa_relatorio_def tarefa_compras_def tarefa_revisao_def)

section \<open>The order of the rendered tasks\<close>

lemma prioridades_Some:
  "p \<in> {''alta'', ''media'', ''baixa''} \<Longrightarrow> \<exists>v. prioridades p = Some v \<and> 1 \<le> v \<and> v \<le> 3"
  by (auto simp: prioridades_def)

lemma prioridades_inj:
  "prioridades p = Some v \<Longrightarrow> prioridades q = Some v \<Longrightarrow> p = q"
  by (simp add: prioridades_def split: if_splits)

lemma ordem_chave:
  assumes "prioridade a \<in> {''alta'', ''media'', ''baixa''}"
    and "prioridade b \<in> {''alta'', ''media'', ''baixa''}"
  shows "ordem comparar a b \<le> 0 \<longleftrightarrow> chave_ordenacao a \<le> chave_ordenacao b"
proof -
  from prioridades_Some [OF assms(1)] obtain va
    where va: "prioridades (prioridade a) = Some va" "1 \<le> va" "va \<le> 3" by blast
  from prioridades_Some [OF assms(2)] obtain vb
    where vb: "prioridades (prioridade b) = Some vb" "1 \<le> vb" "vb \<le> 3" by blast
  show ?thesis
    using va vb by (auto simp: ordem_def comparar_def chave_ordenacao_def)
qed

lemma inserir_insort_key:
  assumes "prioridade x \<in> {''alta'', ''media'', ''baixa''}"
    and "\<forall>y\<in>set ys. prioridade y \<in> {''alta'', ''media'', ''baixa''}"
  shows "inserir comparar x ys = insort_key chave_ordenacao x ys"
  using assms(2)
proof (induction ys)
  case Nil
  then show ?case by simp
next
  case (Cons y ys)
  then have "prioridade y \<in> {''alta'', ''media'', ''baixa''}"
    by simp
  from ordem_chave [OF assms(1) this] Cons show ?case
    by simp
qed

lemma array_sort_sort_key:
  assumes "\<forall>x\<in>set xs. prioridade x \<in> {''alta'', ''media'', ''baixa''}"
  shows "array_sort comparar xs = sort_key chave_ordenacao xs"
  using assms
proof (induction xs)
  case Nil
  then show ?case by (simp add: array_sort_def)
next
  case (Cons x xs)
  then have ih: "array_sort comparar xs = sort_key chave_ordenacao xs"
    and x: "prioridade x \<in> {''alta'', ''media'', ''baixa''}"
    and xs: "\<forall>y\<in>set (sort_key chave_ordenacao xs). prioridade y \<in> {''alta'', ''media'', ''baixa''}"
    by simp_all
  have "array_sort comparar (x # xs) = inserir comparar x (array_sort comparar xs)"
    by (simp add: array_sort_def)
  also have "\<dots> = insort_key chave_ordenacao x (sort_key chave_ordenacao xs)"
    unfolding ih by (rule inserir_insort_key [OF x xs])
  finally show ?case by simp
qed

lemma chave_concluida:
  assumes "prioridade a \<in> {''alta'', ''media'', ''baixa''}"
    and "prioridade b \<in> {''alta'', ''media'', ''baixa''}"
    and "chave_ordenacao a \<le> chave_ordenacao b"
  shows "(concluida a \<longrightarrow> concluida b) \<and>
         (concluida a = concluida b \<longrightarrow>
            (\<exists>pa pb. prioridades (prioridade a) = Some pa \<and>
                      prioridades (prioridade b) = Some pb \<and> pb \<le> pa))"
proof -
  from prioridades_Some [OF assms(1)] obtain va
    where va: "prioridades (prioridade a) = Some va" "1 \<le> va" "va \<le> 3" by blast
  from prioridades_Some [OF assms(2)] obtain vb
    where vb: "prioridades (prioridade b) = Some vb" "1 \<le> vb" "vb \<le> 3" by blast
  show ?thesis
    using va vb assms(3) by (auto simp: chave_ordenacao_def split: if_splits)
qed

lemma chave_igual:
  assumes "prioridade a \<in> {''alta'', ''media'', ''baixa''}"
    and "prioridade b \<in> {''alta'', ''media'', ''baixa''}"
  shows "chave_ordenacao a = chave_ordenacao b \<longleftrightarrow>
           concluida a = concluida b \<and> prioridade a = prioridade b"
proof -
  from prioridades_Some [OF assms(1)] obtain va
    where va: "prioridades (prioridade a) = Some va" "1 \<le> va" "va \<le> 3" by blast
  from prioridades_Some [OF assms(2)] obtain vb
    where vb: "prioridades (prioridade b) = Some vb" "1 \<le> vb" "vb \<le> 3" by blast
  have "va = vb \<longleftrightarrow> prioridade a = prioridade b"
    using va(1) vb(1) prioridades_inj by auto
  then show ?thesis
    using va vb by (auto simp: chave_ordenacao_def split: if_splits)
qed

lemma filtro_estavel:
  assumes ok: "\<forall>x\<in>set xs. prioridade x \<in> {''alta'', ''media'', ''baixa''}"
  shows "filter (\<lambda>t. concluida t = c \<and> prioridade t = p) (sort_key chave_ordenacao xs) =
         filter (\<lambda>t. concluida t = c \<and> prioridade t = p) xs"
proof (cases "\<exists>a\<in>set xs. concluida a = c \<and> prioridade a = p")
  case False
  then have "filter (\<lambda>t. concluida t = c \<and> prioridade t = p) xs = []"
    "filter (\<lambda>t. concluida t = c \<and> prioridade t = p) (sort_key chave_ordenacao xs) = []"
    by (auto simp: filter_empty_conv)
  then show ?thesis by simp
next
  case True
  then obtain a where a: "a \<in> set xs" "concluida a = c" "prioridade a = p"
    by blast
  have eq: "(concluida t = c \<and> prioridade t = p) \<longleftrightarrow> chave_ordenacao t = chave_ordenacao a"
    if "t \<in> set xs" for t
    using chave_igual [of t a] ok that a by auto
  have "filter (\<lambda>t. concluida t = c \<and> prioridade t = p) (sort_key chave_ordenacao xs) =
        filter (\<lambda>t. chave_ordenacao t = chave_ordenacao a) (sort_key chave_ordenacao xs)"
    by (rule filter_cong) (simp_all add: eq)
  also have "\<dots> = filter (\<lambda>t. chave_ordenacao t = chave_ordenacao a) xs"
    by (rule sort_key_stable)
  also have "\<dots> = filter (\<lambda>t. concluida t = c \<and> prioridade t = p) xs"
    by (rule filter_cong) (simp_all add: eq)
  finally show ?thesis .
qed

lemma prioridades_posto:
  "p \<in> {''alta'', ''media'', ''baixa''} \<Longrightarrow> prioridades p = Some (posto_especificado p)"
  by (auto simp: prioridades_def posto_especificado_def)

text \<open>
  C2. When the tasks to show have the priorities of the data model, the tasks
  \<^verbatim>\<open>renderizarTarefas\<close> writes are the filtered tasks, each as often as it is in the
  filtered list, in this order: no completed task stands before a pending one, and of
  two tasks with the same completion status the earlier one has the rank that is
  greater or the same, the ranks being high (\<^verbatim>\<open>alta\<close>) 3, medium (\<^verbatim>\<open>media\<close>) 2 and low
  (\<^verbatim>\<open>baixa\<close>) 1. Tasks with the same status and the same priority stand in the order
  they have in the filtered list.
\<close>

theorem renderizarTarefas_ordem:
  assumes ok: "\<forall>t\<in>set (obterTarefasFiltradas s). prioridade t \<in> {''alta'', ''media'', ''baixa''}"
  shows "mset (renderizarTarefas s) = mset (obterTarefasFiltradas s)
    \<and> (\<forall>i j. i < j \<and> j < length (renderizarTarefas s) \<longrightarrow>
          (concluida (renderizarTarefas s ! i) \<longrightarrow> concluida (renderizarTarefas s ! j))
        \<and> (concluida (renderizarTarefas s ! i) = concluida (renderizarTarefas s ! j) \<longrightarrow>
             posto_especificado (prioridade (renderizarTarefas s ! j))
               \<le> posto_especificado (prioridade (renderizarTarefas s ! i))))
    \<and> (\<forall>c p. filter (\<lambda>t. concluida t = c \<and> prioridade t = p) (renderizarTarefas s) =
              filter (\<lambda>t. concluida t = c \<and> prioridade t = p) (obterTarefasFiltradas s))"
proof -
  let ?xs = "obterTarefasFiltradas s"
  have r: "renderizarTarefas s = sort_key chave_ordenacao ?xs"
    using array_sort_sort_key [OF ok] by (simp add: renderizarTarefas_def)
  have ok': "\<forall>t\<in>set (renderizarTarefas s). prioridade t \<in> {''alta'', ''media'', ''baixa''}"
    using ok by (simp add: r)
  have ord: "(concluida (renderizarTarefas s ! i) \<longrightarrow> concluida (renderizarTarefas s ! j))
        \<and> (concluida (renderizarTarefas s ! i) = concluida (renderizarTarefas s ! j) \<longrightarrow>
             posto_especificado (prioridade (renderizarTarefas s ! j))
               \<le> posto_especificado (prioridade (renderizarTarefas s ! i)))"
    if ij: "i < j \<and> j < length (renderizarTarefas s)" for i j
  proof -
    have "sorted (map chave_ordenacao (renderizarTarefas s))"
      by (simp add: r)
    with ij have "map chave_ordenacao (renderizarTarefas s) ! i
        \<le> map chave_ordenacao (renderizarTarefas s) ! j"
      by (intro sorted_nth_mono) simp_all
    with ij have k: "chave_ordenacao (renderizarTarefas s ! i)
        \<le> chave_ordenacao (renderizarTarefas s ! j)"
      by simp
    from ij have "renderizarTarefas s ! i \<in> set (renderizarTarefas s)"
      "renderizarTarefas s ! j \<in> set (renderizarTarefas s)"
      by simp_all
    with ok' have v: "prioridade (renderizarTarefas s ! i) \<in> {''alta'', ''media'', ''baixa''}"
      "prioridade (renderizarTarefas s ! j) \<in> {''alta'', ''media'', ''baixa''}"
      by blast+
    from chave_concluida [OF v k] prioridades_posto [OF v(1)] prioridades_posto [OF v(2)]
    show ?thesis
      by auto
  qed
  show ?thesis
  proof (intro conjI allI impI)
    show "mset (renderizarTarefas s) = mset ?xs"
      by (simp add: r)
  next
    fix i j
    assume ij: "i < j \<and> j < length (renderizarTarefas s)"
    from ord [OF ij] show "concluida (renderizarTarefas s ! i) \<Longrightarrow> concluida (renderizarTarefas s ! j)"
      by blast
    from ord [OF ij] show "concluida (renderizarTarefas s ! i) = concluida (renderizarTarefas s ! j) \<Longrightarrow>
             posto_especificado (prioridade (renderizarTarefas s ! j))
               \<le> posto_especificado (prioridade (renderizarTarefas s ! i))"
      by blast
  next
    fix c p
    show "filter (\<lambda>t. concluida t = c \<and> prioridade t = p) (renderizarTarefas s) =
          filter (\<lambda>t. concluida t = c \<and> prioridade t = p) ?xs"
      unfolding r by (rule filtro_estavel [OF ok])
  qed
qed

theorem renderizarTarefas_ordem_witness:
  "list_all (\<lambda>t. prioridade t \<in> {''alta'', ''media'', ''baixa''})
     (obterTarefasFiltradas sistema_pendentes)
   \<and> obterTarefasFiltradas sistema_pendentes =
       [tarefa_compras, tarefa_revisao, tarefa_relatorio\<lparr>concluida := False\<rparr>]
   \<and> map prioridade (obterTarefasFiltradas sistema_pendentes) = [''baixa'', ''media'', ''alta'']
   \<and> renderizarTarefas sistema_pendentes =
       [tarefa_relatorio\<lparr>concluida := False\<rparr>, tarefa_revisao, tarefa_compras]
   \<and> map prioridade (renderizarTarefas sistema_pendentes) = [''alta'', ''media'', ''baixa'']
   \<and> mset (renderizarTarefas sistema_pendentes) = mset (obterTarefasFiltradas sistema_pendentes)
   \<and> posto_especificado (prioridade (renderizarTarefas sistema_pendentes ! 1))
       \<le> posto_especificado (prioridade (renderizarTarefas sistema_pendentes ! 0))
   \<and> posto_especificado (prioridade (renderizarTarefas sistema_pendentes ! 2))
       \<le> posto_especificado (prioridade (renderizarTarefas sistema_pendentes ! 1))
   \<and> renderizarTarefas sistema_exemplo = [tarefa_revisao, tarefa_compras, tarefa_relatorio]"
proof -
  have f: "obterTarefasFiltradas sistema_pendentes =
      [tarefa_compras, tarefa_revisao, tarefa_relatorio\<lparr>concluida := False\<rparr>]"
    by (simp add: obterTarefasFiltradas_def sistema_pendentes_def)
  have pr: "prioridade tarefa_compras = ''baixa''" "prioridade tarefa_revisao = ''media''"
    "prioridade tarefa_relatorio = ''alta''"
    by (simp_all add: tarefa_relatorio_def tarefa_compras_def tarefa_revisao_def)
  have ok: "\<forall>t\<in>set (obterTarefasFiltradas sistema_pendentes).
      prioridade t \<in> {''alta'', ''media'', ''baixa''}"
    by (simp add: f pr)
  have r: "renderizarTarefas sistema_pendentes =
      [tarefa_relatorio\<lparr>concluida := False\<rparr>, tarefa_revisao, tarefa_compras]"
    by (simp add: renderizarTarefas_def f array_sort_def ordem_def comparar_def prioridades_def
        tarefa_relatorio_def tarefa_compras_def tarefa_revisao_def)
  have e: "renderizarTarefas sistema_exemplo = [tarefa_revisao, tarefa_compras, tarefa_relatorio]"
    by (simp add: renderizarTarefas_def obterTarefasFiltradas_def sistema_exemplo_def
        array_sort_def ordem_def comparar_def prioridades_def
        tarefa_relatorio_def tarefa_compras_def tarefa_revisao_def)
  note t = renderizarTarefas_ordem [OF ok]
  from t have m: "mset (renderizarTarefas sistema_pendentes)
      = mset (obterTarefasFiltradas sistema_pendentes)"
    by blast
  have c: "concluida (renderizarTarefas sistema_pendentes ! 0)
        = concluida (renderizarTarefas sistema_pendentes ! 1)"
    "concluida (renderizarTarefas sistema_pendentes ! 1)
        = concluida (renderizarTarefas sistema_pendentes ! 2)"
    by (simp_all add: r tarefa_compras_def tarefa_revisao_def)
  have l: "(0::nat) < 1 \<and> 1 < length (renderizarTarefas sistema_pendentes)"
    "(1::nat) < 2 \<and> 2 < length (renderizarTarefas sistema_pendentes)"
    by (simp_all add: r)
  from t l(1) c(1) have p1: "posto_especificado (prioridade (renderizarTarefas sistema_pendentes ! 1))
       \<le> posto_especificado (prioridade (renderizarTarefas sistema_pendentes ! 0))"
    by blast
  from t l(2) c(2) have p2: "posto_especificado (prioridade (renderizarTarefas sistema_pendentes ! 2))
       \<le> posto_especificado (prioridade (renderizarTarefas sistema_pendentes ! 1))"
    by blast
  have mp: "map prioridade (obterTarefasFiltradas sistema_pendentes) = [''baixa'', ''media'', ''alta'']"
    "map prioridade (renderizarTarefas sistema_pendentes) = [''alta'', ''media'', ''baixa'']"
    by (simp_all add: f r pr)
  from ok f r e m p1 p2 mp show ?thesis
    by (simp add: list_all_iff)
qed

section \<open>The storage adapter\<close>

subsection \<open>Reading back what was written\<close>

lemma valor_hex_digito: "n < 16 \<Longrightarrow> valor_hex (digito_hex n) = Some n"
  by (simp add: valor_hex_def digito_hex_def Let_def)

lemma valor_hex_zero: "valor_hex (CHR ''0'') = Some 0"
  by (simp add: valor_hex_def)

lemma ler_cadeia_comum:
  "c \<noteq> aspas \<Longrightarrow> c \<noteq> barra_invertida \<Longrightarrow> \<not> (of_char c :: nat) < 32 \<Longrightarrow>
   ler_cadeia (c # r) = prefixar c (ler_cadeia r)"
  by simp

lemma ler_cadeia_escape:
  "desescapar e = Some x \<Longrightarrow> e \<noteq> CHR ''u'' \<Longrightarrow>
   ler_cadeia (barra_invertida # e # r) = prefixar x (ler_cadeia r)"
  by (simp add: aspas_def barra_invertida_def)

lemma ler_cadeia_unicode:
  "valor_hex h1 = Some a \<Longrightarrow> valor_hex h2 = Some b \<Longrightarrow> valor_hex h3 = Some c \<Longrightarrow>
   valor_hex h4 = Some d \<Longrightarrow>
   ler_cadeia (barra_invertida # CHR ''u'' # h1 # h2 # h3 # h4 # r) =
     prefixar (char_of (((a * 16 + b) * 16 + c) * 16 + d)) (ler_cadeia r)"
  by (simp add: aspas_def barra_invertida_def)


lemma ler_cadeia_controle:
  assumes "(of_char c :: nat) < 32"
  shows "ler_cadeia ([barra_invertida, CHR ''u'', CHR ''0'', CHR ''0'',
              digito_hex ((of_char c :: nat) div 16), digito_hex ((of_char c :: nat) mod 16)] @ r)
         = prefixar c (ler_cadeia r)"
proof -
  let ?n = "of_char c :: nat"
  have h: "valor_hex (digito_hex (?n div 16)) = Some (?n div 16)"
    "valor_hex (digito_hex (?n mod 16)) = Some (?n mod 16)"
    using assms by (simp_all add: valor_hex_digito)
  have c: "char_of (((0 * 16 + 0) * 16 + ?n div 16) * 16 + ?n mod 16) = c"
    by simp
  show ?thesis
    using ler_cadeia_unicode [OF valor_hex_zero valor_hex_zero h, of r]
    by (simp only: c append.simps)
qed

lemma ler_cadeia_escapar: "ler_cadeia (escapar c @ r) = prefixar c (ler_cadeia r)"
proof -
  consider "c = CHR 0x08" | "c = CHR 0x09" | "c = CHR 0x0A" | "c = CHR 0x0C" | "c = CHR 0x0D"
    | "c = aspas" | "c = barra_invertida"
    | "c \<notin> {CHR 0x08, CHR 0x09, CHR 0x0A, CHR 0x0C, CHR 0x0D, aspas, barra_invertida}"
      "(of_char c :: nat) < 32"
    | "c \<notin> {CHR 0x08, CHR 0x09, CHR 0x0A, CHR 0x0C, CHR 0x0D, aspas, barra_invertida}"
      "\<not> (of_char c :: nat) < 32"
    by blast
  then show ?thesis
  proof cases
    case 1
    then have "escapar c = [barra_invertida, CHR ''b'']" by (simp add: escapar_def)
    with 1 show ?thesis
      using ler_cadeia_escape [of "CHR ''b''" "CHR 0x08" r]
      by (simp add: desescapar_def aspas_def barra_invertida_def del: ler_cadeia.simps)
  next
    case 2
    then have "escapar c = [barra_invertida, CHR ''t'']" by (simp add: escapar_def)
    with 2 show ?thesis
      using ler_cadeia_escape [of "CHR ''t''" "CHR 0x09" r]
      by (simp add: desescapar_def aspas_def barra_invertida_def del: ler_cadeia.simps)
  next
    case 3
    then have "escapar c = [barra_invertida, CHR ''n'']" by (simp add: escapar_def)
    with 3 show ?thesis
      using ler_cadeia_escape [of "CHR ''n''" "CHR 0x0A" r]
      by (simp add: desescapar_def aspas_def barra_invertida_def del: ler_cadeia.simps)
  next
    case 4
    then have "escapar c = [barra_invertida, CHR ''f'']" by (simp add: escapar_def)
    with 4 show ?thesis
      using ler_cadeia_escape [of "CHR ''f''" "CHR 0x0C" r]
      by (simp add: desescapar_def aspas_def barra_invertida_def del: ler_cadeia.simps)
  next
    case 5
    then have "escapar c = [barra_invertida, CHR ''r'']" by (simp add: escapar_def)
    with 5 show ?thesis
      using ler_cadeia_escape [of "CHR ''r''" "CHR 0x0D" r]
      by (simp add: desescapar_def aspas_def barra_invertida_def del: ler_cadeia.simps)
  next
    case 6
    then have "escapar c = [barra_invertida, aspas]" by (simp add: escapar_def aspas_def)
    with 6 show ?thesis
      using ler_cadeia_escape [of aspas aspas r]
      by (simp add: desescapar_def aspas_def barra_invertida_def del: ler_cadeia.simps)
  next
    case 7
    then have "escapar c = [barra_invertida, barra_invertida]"
      by (simp add: escapar_def aspas_def barra_invertida_def)
    with 7 show ?thesis
      using ler_cadeia_escape [of barra_invertida barra_invertida r]
      by (simp add: desescapar_def aspas_def barra_invertida_def del: ler_cadeia.simps)
  next
    case 8
    then have "escapar c = [barra_invertida, CHR ''u'', CHR ''0'', CHR ''0'',
              digito_hex ((of_char c :: nat) div 16), digito_hex ((of_char c :: nat) mod 16)]"
      by (simp add: escapar_def)
    with 8(2) show ?thesis
      using ler_cadeia_controle [of c r] by (simp del: ler_cadeia.simps)
  next
    case 9
    then have "escapar c = [c]" by (simp add: escapar_def)
    with 9 show ?thesis
      using ler_cadeia_comum [of c r] by (simp del: ler_cadeia.simps)
  qed
qed

lemma ler_cadeia_citar: "ler_cadeia (concat (map escapar s) @ aspas # r) = Some (s, r)"
proof (induction s)
  case Nil
  then show ?case by simp
next
  case (Cons c s)
  have "ler_cadeia (concat (map escapar (c # s)) @ aspas # r)
      = ler_cadeia (escapar c @ (concat (map escapar s) @ aspas # r))"
    by (simp del: ler_cadeia.simps)
  also have "\<dots> = prefixar c (ler_cadeia (concat (map escapar s) @ aspas # r))"
    by (rule ler_cadeia_escapar)
  finally show ?case
    by (simp add: Cons.IH prefixar_def del: ler_cadeia.simps)
qed


lemma pular_nao_espaco: "\<not> espaco_json c \<Longrightarrow> pular (c # r) = c # r"
  by (simp add: pular_def)

lemma ler_valor_lista_vazia: "ler_valor n (CHR ''['' # CHR '']'' # r) = Some (JArray [], r)"
  by (simp add: pular_def espaco_json_def)

lemma ler_valor_lista:
  "\<not> espaco_json d \<Longrightarrow> d \<noteq> CHR '']'' \<Longrightarrow>
   ler_valor (Suc m) (CHR ''['' # d # r) =
     (case ler_elementos m (d # r) of None \<Rightarrow> None | Some (vs, t) \<Rightarrow> Some (JArray vs, t))"
  by (simp add: pular_nao_espaco del: ler_elementos.simps)

lemma ler_valor_objeto_vazio: "ler_valor n (CHR ''{'' # CHR ''}'' # r) = Some (JObject [], r)"
  by (simp add: pular_def espaco_json_def)

lemma ler_valor_objeto:
  "\<not> espaco_json d \<Longrightarrow> d \<noteq> CHR ''}'' \<Longrightarrow>
   ler_valor (Suc m) (CHR ''{'' # d # r) =
     (case ler_membros m (d # r) of None \<Rightarrow> None | Some (ms, t) \<Rightarrow> Some (JObject ms, t))"
  by (simp add: pular_nao_espaco del: ler_membros.simps)

lemma ler_valor_cadeia:
  "ler_valor n (aspas # cs) =
     (case ler_cadeia cs of None \<Rightarrow> None | Some (s, t) \<Rightarrow> Some (JString s, t))"
  by (simp add: aspas_def del: ler_cadeia.simps)

lemma ler_valor_literais:
  "ler_valor n (''null'' @ r) = Some (JNull, r)"
  "ler_valor n (''true'' @ r) = Some (JBool True, r)"
  "ler_valor n (''false'' @ r) = Some (JBool False, r)"
  by (simp_all add: aspas_def)

lemma ler_elementos_ultimo:
  "ler_valor n s = Some (v, CHR '']'' # r) \<Longrightarrow> ler_elementos n s = Some ([v], r)"
  by (simp add: pular_def espaco_json_def del: ler_valor.simps)

lemma ler_elementos_seguinte:
  "ler_valor (Suc m) s = Some (v, CHR '','' # d # r) \<Longrightarrow> \<not> espaco_json d \<Longrightarrow>
   ler_elementos (Suc m) s = prefixar v (ler_elementos m (d # r))"
  by (simp add: pular_def espaco_json_def del: ler_valor.simps)

lemma ler_membros_ultimo:
  "ler_cadeia s1 = Some (k, CHR '':'' # d # s3) \<Longrightarrow> \<not> espaco_json d \<Longrightarrow>
   ler_valor n (d # s3) = Some (v, CHR ''}'' # r) \<Longrightarrow>
   ler_membros n (aspas # s1) = Some ([(k, v)], r)"
  by (simp add: pular_def espaco_json_def del: ler_valor.simps ler_cadeia.simps)

lemma ler_membros_seguinte:
  "ler_cadeia s1 = Some (k, CHR '':'' # d # s3) \<Longrightarrow> \<not> espaco_json d \<Longrightarrow>
   ler_valor (Suc m) (d # s3) = Some (v, CHR '','' # e # r) \<Longrightarrow> \<not> espaco_json e \<Longrightarrow>
   ler_membros (Suc m) (aspas # s1) = prefixar (k, v) (ler_membros m (e # r))"
  by (simp add: pular_def espaco_json_def del: ler_valor.simps ler_cadeia.simps)


lemma citar_Cons: "citar k = aspas # concat (map escapar k) @ [aspas]"
  by (simp add: citar_def)

lemma stringify_inicio:
  "sem_numeros v \<Longrightarrow>
   \<exists>c cs. JSON_stringify v = c # cs \<and> \<not> espaco_json c \<and> c \<noteq> CHR '']'' \<and> c \<noteq> CHR ''}''"
  by (cases v) (auto simp: espaco_json_def citar_def aspas_def)

lemma roundtrip_valor:
  "sem_numeros v \<Longrightarrow> length (JSON_stringify v) \<le> n \<Longrightarrow>
     ler_valor n (JSON_stringify v @ r) = Some (v, r)"
  and roundtrip_elementos:
  "sem_numeros_elementos vs \<Longrightarrow> vs \<noteq> [] \<Longrightarrow> length (stringify_elementos vs) \<le> n \<Longrightarrow>
     ler_elementos n (stringify_elementos vs @ CHR '']'' # r) = Some (vs, r)"
  and roundtrip_membros:
  "sem_numeros_membros ms \<Longrightarrow> ms \<noteq> [] \<Longrightarrow> length (stringify_membros ms) \<le> n \<Longrightarrow>
     ler_membros n (stringify_membros ms @ CHR ''}'' # r) = Some (ms, r)"
proof (induction v and vs and ms arbitrary: n r and n r and n r
    rule: JSON_stringify_stringify_elementos_stringify_membros.induct)
  case 1
  show ?case
    using ler_valor_literais(1) [of n r] by (simp del: ler_valor.simps)
next
  case (2 b)
  show ?case
    using ler_valor_literais(2,3) [of n r] by (simp del: ler_valor.simps)
next
  case (3 l)
  then show ?case by simp
next
  case (4 s)
  show ?case
    using ler_valor_cadeia [of n "concat (map escapar s) @ aspas # r"]
    by (simp add: citar_def ler_cadeia_citar del: ler_valor.simps ler_cadeia.simps)
next
  case (5 vs)
  show ?case
  proof (cases vs)
    case Nil
    then show ?thesis
      using ler_valor_lista_vazia [of n r] by (simp del: ler_valor.simps)
  next
    case (Cons w ws)
    with "5.prems" have sw: "sem_numeros w" by simp
    from stringify_inicio [OF sw] obtain c cs
      where c: "JSON_stringify w = c # cs" "\<not> espaco_json c" "c \<noteq> CHR '']''"
      by blast
    then obtain cs' where cs': "stringify_elementos vs = c # cs'"
      using Cons by (cases ws) auto
    from "5.prems"(2) obtain m where m: "n = Suc m" "length (stringify_elementos vs) \<le> m"
      by (cases n) auto
    from "5.prems"(1) Cons have "sem_numeros_elementos vs" "vs \<noteq> []"
      by simp_all
    from "5.IH" [OF this m(2), of r]
    have "ler_elementos m (c # cs' @ CHR '']'' # r) = Some (vs, r)"
      by (simp add: cs' del: ler_elementos.simps)
    with ler_valor_lista [OF c(2,3), of m "cs' @ CHR '']'' # r"] show ?thesis
      by (simp add: cs' m(1) del: ler_valor.simps ler_elementos.simps)
  qed
next
  case (6 ms)
  show ?case
  proof (cases ms)
    case Nil
    then show ?thesis
      using ler_valor_objeto_vazio [of n r] by (simp del: ler_valor.simps)
  next
    case (Cons kv ws)
    then obtain cs' where cs': "stringify_membros ms = aspas # cs'"
      by (cases kv; cases ws) (auto simp: citar_def)
    have a: "\<not> espaco_json aspas" "aspas \<noteq> CHR ''}''"
      by (simp_all add: espaco_json_def aspas_def)
    from "6.prems"(2) obtain m where m: "n = Suc m" "length (stringify_membros ms) \<le> m"
      by (cases n) auto
    from "6.prems"(1) Cons have "sem_numeros_membros ms" "ms \<noteq> []"
      by simp_all
    from "6.IH" [OF this m(2), of r]
    have "ler_membros m (aspas # cs' @ CHR ''}'' # r) = Some (ms, r)"
      by (simp add: cs' del: ler_membros.simps)
    with ler_valor_objeto [OF a, of m "cs' @ CHR ''}'' # r"] show ?thesis
      by (simp add: cs' m(1) del: ler_valor.simps ler_membros.simps)
  qed
next
  case 7
  then show ?case by simp
next
  case (8 v)
  from "8.prems" have "ler_valor n (JSON_stringify v @ CHR '']'' # r) = Some (v, CHR '']'' # r)"
    by (intro "8.IH") simp_all
  then show ?case
    by (simp add: ler_elementos_ultimo del: ler_valor.simps ler_elementos.simps)
next
  case (9 v w vs)
  let ?resto = "stringify_elementos (w # vs)"
  from "9.prems" have sv: "sem_numeros v" and sw: "sem_numeros w"
    and svs: "sem_numeros_elementos (w # vs)"
    by simp_all
  from stringify_inicio [OF sw] obtain c cs
    where c: "JSON_stringify w = c # cs" "\<not> espaco_json c"
    by blast
  then obtain cs' where cs': "?resto = c # cs'"
    by (cases vs) auto
  from "9.prems"(3) obtain m where m: "n = Suc m" "length ?resto \<le> m"
    "length (JSON_stringify v) \<le> Suc m"
    by (cases n) auto
  have "ler_valor (Suc m) (JSON_stringify v @ (CHR '','' # c # cs' @ CHR '']'' # r))
      = Some (v, CHR '','' # c # cs' @ CHR '']'' # r)"
    using sv m(3) by (intro "9.IH"(1)) simp_all
  from ler_elementos_seguinte [OF this c(2)]
  have "ler_elementos (Suc m) (JSON_stringify v @ (CHR '','' # c # cs' @ CHR '']'' # r))
      = prefixar v (ler_elementos m (c # cs' @ CHR '']'' # r))" .
  moreover have "ler_elementos m (?resto @ CHR '']'' # r) = Some (w # vs, r)"
    using svs m(2) by (intro "9.IH"(2)) simp_all
  ultimately show ?case
    by (simp add: cs' m(1) prefixar_def del: ler_valor.simps ler_elementos.simps)
next
  case 10
  then show ?case by simp
next
  case (11 k v)
  from "11.prems" have sv: "sem_numeros v"
    by simp
  from stringify_inicio [OF sv] obtain c cs
    where c: "JSON_stringify v = c # cs" "\<not> espaco_json c"
    by blast
  have k: "ler_cadeia (concat (map escapar k) @ aspas # CHR '':'' # c # cs @ CHR ''}'' # r)
      = Some (k, CHR '':'' # c # (cs @ CHR ''}'' # r))"
    using ler_cadeia_citar [of k "CHR '':'' # c # cs @ CHR ''}'' # r"] by simp
  have "ler_valor n (JSON_stringify v @ CHR ''}'' # r) = Some (v, CHR ''}'' # r)"
    using sv "11.prems"(3) by (intro "11.IH") simp_all
  then have "ler_valor n (c # (cs @ CHR ''}'' # r)) = Some (v, CHR ''}'' # r)"
    by (simp add: c(1) del: ler_valor.simps)
  from ler_membros_ultimo [OF k c(2) this] show ?case
    by (simp add: citar_def c(1) del: ler_valor.simps ler_membros.simps ler_cadeia.simps)
next
  case (12 k v kw ms)
  let ?resto = "stringify_membros (kw # ms)"
  from "12.prems" have sv: "sem_numeros v" and sms: "sem_numeros_membros (kw # ms)"
    by simp_all
  from stringify_inicio [OF sv] obtain c cs
    where c: "JSON_stringify v = c # cs" "\<not> espaco_json c"
    by blast
  obtain cs' where cs': "?resto = aspas # cs'"
    by (cases kw; cases ms) (auto simp: citar_def)
  have a: "\<not> espaco_json aspas"
    by (simp add: espaco_json_def aspas_def)
  from "12.prems"(3) obtain m where m: "n = Suc m" "length ?resto \<le> m"
    "length (JSON_stringify v) \<le> Suc m"
    by (cases n) auto
  let ?fim = "CHR '','' # aspas # cs' @ CHR ''}'' # r"
  have k: "ler_cadeia (concat (map escapar k) @ aspas # CHR '':'' # c # cs @ ?fim)
      = Some (k, CHR '':'' # c # (cs @ ?fim))"
    using ler_cadeia_citar [of k "CHR '':'' # c # cs @ ?fim"] by simp
  have "ler_valor (Suc m) (JSON_stringify v @ ?fim) = Some (v, ?fim)"
    using sv m(3) by (intro "12.IH"(1)) simp_all
  then have "ler_valor (Suc m) (c # (cs @ ?fim)) = Some (v, ?fim)"
    by (simp add: c(1) del: ler_valor.simps)
  from ler_membros_seguinte [OF k c(2) this a]
  have "ler_membros (Suc m) (aspas # concat (map escapar k) @ aspas # CHR '':'' # c # cs @ ?fim)
      = prefixar (k, v) (ler_membros m (aspas # cs' @ CHR ''}'' # r))" .
  moreover have "ler_membros m (?resto @ CHR ''}'' # r) = Some (kw # ms, r)"
    using sms m(2) by (intro "12.IH"(2)) simp_all
  ultimately show ?case
    by (simp add: cs' c(1) m(1) citar_def prefixar_def
        del: ler_valor.simps ler_membros.simps ler_cadeia.simps)
qed


lemma JSON_parse_stringify:
  assumes "sem_numeros v"
  shows "JSON_parse (JSON_stringify v) = Some v"
proof -
  from stringify_inicio [OF assms] obtain c cs
    where c: "JSON_stringify v = c # cs" "\<not> espaco_json c"
    by blast
  then have p: "pular (JSON_stringify v) = JSON_stringify v"
    by (simp add: pular_nao_espaco)
  have "ler_valor (length (JSON_stringify v)) (JSON_stringify v @ []) = Some (v, [])"
    using assms by (intro roundtrip_valor) simp_all
  moreover have "pular [] = []"
    by (simp add: pular_def)
  ultimately show ?thesis
    by (simp add: JSON_parse_def p del: ler_valor.simps)
qed

lemma sem_numeros_tarefas: "sem_numeros (tarefas_json ts)"
proof -
  have "sem_numeros_elementos (map tarefa_json ts)"
    by (induction ts) (simp_all add: tarefa_json_def split: option.splits)
  then show ?thesis
    by (simp add: tarefas_json_def)
qed

lemma tarefa_json_inj: "tarefa_json a = tarefa_json b \<Longrightarrow> a = b"
  by (cases a; cases b) (auto simp: tarefa_json_def split: option.splits)

lemma tarefas_json_inj: "tarefas_json a = tarefas_json b \<Longrightarrow> a = b"
proof -
  have "inj tarefa_json"
    by (rule injI) (rule tarefa_json_inj)
  then show "tarefas_json a = tarefas_json b \<Longrightarrow> a = b"
    by (simp add: tarefas_json_def inj_map_eq_map)
qed

lemma parse_quebrado: "JSON_parse ''[{'' = None"
  by (simp add: JSON_parse_def pular_def espaco_json_def aspas_def)

text \<open>
  C8. When the storage is available and accepts the text, saving a task list under a
  key and then loading the key gives back the value of that list (the default is not
  used, and the load is logged as a success). The value determines the list: two task
  lists with the same value have the same tasks, with the same fields, in the same
  order.
\<close>

theorem salvar_carregar_tarefas:
  assumes "acessivel ls" and "length (JSON_stringify (tarefas_json v)) \<le> cota ls"
  shows "carregar chave valorPadrao (fst (salvar chave (tarefas_json v) ls))
           = (tarefas_json v, [Info (DadosCarregados chave)])
     \<and> (\<forall>w. tarefas_json w = tarefas_json v \<longrightarrow> w = v)"
proof (intro conjI allI impI)
  have "fst (salvar chave (tarefas_json v) ls)
      = ls\<lparr>itens := (itens ls)(chave \<mapsto> JSON_stringify (tarefas_json v))\<rparr>"
    using assms by (simp add: salvar_def setItem_def)
  then show "carregar chave valorPadrao (fst (salvar chave (tarefas_json v) ls))
           = (tarefas_json v, [Info (DadosCarregados chave)])"
    using assms(1) JSON_parse_stringify [OF sem_numeros_tarefas, of v]
    by (simp add: carregar_def getItem_def)
next
  fix w
  assume "tarefas_json w = tarefas_json v"
  then show "w = v"
    by (rule tarefas_json_inj)
qed

theorem salvar_carregar_tarefas_witness:
  "acessivel armazenamento_exemplo
   \<and> carregar ''tarefas'' (JArray [])
         (fst (salvar ''tarefas'' (tarefas_json (tarefas sistema_exemplo)) armazenamento_exemplo))
       = (tarefas_json [tarefa_relatorio, tarefa_compras, tarefa_revisao],
          [Info (DadosCarregados ''tarefas'')])"
proof -
  have a: "acessivel armazenamento_exemplo"
    by (simp add: armazenamento_exemplo_def)
  have c: "length (JSON_stringify (tarefas_json (tarefas sistema_exemplo)))
      \<le> cota armazenamento_exemplo"
    by (simp add: sistema_exemplo_def tarefas_json_def tarefa_json_def tarefa_relatorio_def
        tarefa_compras_def tarefa_revisao_def citar_def escapar_def aspas_def
        barra_invertida_def armazenamento_exemplo_def)
  have t: "tarefas sistema_exemplo = [tarefa_relatorio, tarefa_compras, tarefa_revisao]"
    by (simp add: sistema_exemplo_def)
  from salvar_carregar_tarefas [OF a c, of "''tarefas''" "JArray []"] a show ?thesis
    by (simp add: t)
qed

subsection \<open>Loading when there is nothing to load\<close>

text \<open>
  C9. \<^verbatim>\<open>carregar\<close> always returns a value to its caller. It returns the default value
  when the key is not in the storage (and logs nothing), when reading the storage
  throws (after logging the error), and when the stored text is not JSON (after
  logging the error). In the one remaining case it returns the value read.
\<close>

theorem carregar_valorPadrao:
  "(acessivel ls \<and> itens ls chave = None \<longrightarrow> carregar chave valorPadrao ls = (valorPadrao, []))
   \<and> (\<not> acessivel ls \<longrightarrow>
        carregar chave valorPadrao ls = (valorPadrao, [Erro (ErroAoCarregar chave SecurityError)]))
   \<and> (\<forall>texto. acessivel ls \<and> itens ls chave = Some texto \<and> JSON_parse texto = None \<longrightarrow>
        carregar chave valorPadrao ls = (valorPadrao, [Erro (ErroAoCarregar chave SyntaxError)]))
   \<and> (\<forall>texto dados. acessivel ls \<and> itens ls chave = Some texto \<and> JSON_parse texto = Some dados \<longrightarrow>
        carregar chave valorPadrao ls = (dados, [Info (DadosCarregados chave)]))"
  by (simp add: carregar_def getItem_def)

theorem carregar_valorPadrao_witness:
  "carregar ''tarefas'' (JArray []) armazenamento_exemplo = (JArray [], [])
   \<and> carregar ''tarefas'' (JArray []) (armazenamento_exemplo\<lparr>acessivel := False\<rparr>)
       = (JArray [], [Erro (ErroAoCarregar ''tarefas'' SecurityError)])
   \<and> carregar ''tarefas'' (JArray [])
         (armazenamento_exemplo\<lparr>itens := [''tarefas'' \<mapsto> ''[{'']\<rparr>)
       = (JArray [], [Erro (ErroAoCarregar ''tarefas'' SyntaxError)])"
proof -
  let ?l3 = "armazenamento_exemplo\<lparr>itens := [''tarefas'' \<mapsto> ''[{'']\<rparr>"
  have h: "acessivel ?l3 \<and> itens ?l3 ''tarefas'' = Some ''[{'' \<and> JSON_parse ''[{'' = None"
    by (simp add: armazenamento_exemplo_def parse_quebrado)
  from carregar_valorPadrao [of ?l3 "''tarefas''" "JArray []"] h
  have c: "carregar ''tarefas'' (JArray []) ?l3
      = (JArray [], [Erro (ErroAoCarregar ''tarefas'' SyntaxError)])"
    by blast
  from carregar_valorPadrao [of armazenamento_exemplo "''tarefas''" "JArray []"]
  have a: "carregar ''tarefas'' (JArray []) armazenamento_exemplo = (JArray [], [])"
    by (simp add: armazenamento_exemplo_def)
  from carregar_valorPadrao [of "armazenamento_exemplo\<lparr>acessivel := False\<rparr>" "''tarefas''" "JArray []"]
  have b: "carregar ''tarefas'' (JArray []) (armazenamento_exemplo\<lparr>acessivel := False\<rparr>)
       = (JArray [], [Erro (ErroAoCarregar ''tarefas'' SecurityError)])"
    by simp
  from a b c show ?thesis
    by blast
qed

end
